(* ===== verification/Prelude.thy ===== *)
theory Prelude
  imports Complex_Main "HOL-Library.Word"
begin

text \<open>
  Shared vocabulary of the development: Python byte strings as lists of
  8-bit words, the Python exceptions the modelled code can raise, the
  big-endian integer packing of Python's \<open>struct\<close> module (formats
  \<open>B\<close>, \<open>H\<close>, \<open>I\<close> with the \<open>!\<close> byte order), slices, and the generic
  lemmas on them that the component theories use.
\<close>

section \<open>Types of the model\<close>

type_synonym byte = "8 word"
type_synonym bytes = "byte list"

text \<open>An IPv4 address; the code keeps it as a dotted-quad string, see \<open>Codec\<close>.\<close>
type_synonym addr = "32 word"

text \<open>
  The Python exceptions raised on some path of the modelled code.
  \<open>StructError\<close> is \<open>struct.error\<close> (a value out of range for its field,
  or a buffer of the wrong size).
\<close>
datatype pyexc =
    StructError
  | AttributeError
  | ValueError
  | IndexError
  | AssertionError
  | UnboundLocalError

named_theorems wire_simps "byte-level encoding facts used by the codec proofs"
named_theorems preserves "rules: an operation keeps a component invariant"

section \<open>Big-endian integers (struct formats B, H, I)\<close>

text \<open>\<open>be n v\<close>: the \<open>n\<close> low-order bytes of \<open>v\<close>, most significant first.\<close>
fun be :: "nat \<Rightarrow> int \<Rightarrow> bytes" where
  "be 0 v = []"
| "be (Suc n) v = be n (v div 256) @ [word_of_int (v mod 256)]"

text \<open>Reading a big-endian byte string back as a non-negative integer.\<close>
definition unbe :: "bytes \<Rightarrow> int" where
  "unbe bs = foldl (\<lambda>acc b. acc * 256 + uint b) 0 bs"

text \<open>
  \<open>struct.pack\<close> of one field of \<open>n\<close> bytes: \<open>struct.error\<close> when the value
  does not fit the field.
\<close>
definition pack_field :: "nat \<Rightarrow> int \<Rightarrow> pyexc + bytes" where
  "pack_field n v = (if 0 \<le> v \<and> v < 2 ^ (8 * n) then Inr (be n v) else Inl StructError)"

text \<open>\<open>struct.pack\<close> of several fields, given as (width, value) pairs.\<close>
fun pack :: "(nat \<times> int) list \<Rightarrow> pyexc + bytes" where
  "pack [] = Inr []"
| "pack ((n, v) # fs) =
     (case pack_field n v of
        Inl e \<Rightarrow> Inl e
      | Inr b \<Rightarrow> (case pack fs of Inl e \<Rightarrow> Inl e | Inr bs \<Rightarrow> Inr (b @ bs)))"

text \<open>
  \<open>struct.unpack\<close> with field widths \<open>ws\<close>: the buffer must have exactly the
  total size.
\<close>
fun unpack_fields :: "nat list \<Rightarrow> bytes \<Rightarrow> int list" where
  "unpack_fields [] bs = []"
| "unpack_fields (n # ns) bs = unbe (take n bs) # unpack_fields ns (drop n bs)"

definition unpack :: "nat list \<Rightarrow> bytes \<Rightarrow> pyexc + int list" where
  "unpack ws bs = (if length bs = sum_list ws then Inr (unpack_fields ws bs) else Inl StructError)"

text \<open>Python's slice \<open>xs[a:b]\<close> for non-negative bounds.\<close>
definition slice :: "nat \<Rightarrow> nat \<Rightarrow> 'a list \<Rightarrow> 'a list" where
  "slice a b xs = take (b - a) (drop a xs)"

section \<open>Lemmas\<close>

lemma length_be [simp, wire_simps]: "length (be n v) = n"
  by (induction n arbitrary: v) auto

lemma unbe_append [wire_simps]: "unbe (xs @ [b]) = unbe xs * 256 + uint b"
  by (simp add: unbe_def)

lemma unbe_Nil [simp, wire_simps]: "unbe [] = 0"
  by (simp add: unbe_def)

lemma uint_byte_of_int [wire_simps]: "uint (word_of_int k :: byte) = k mod 256"
  by (simp add: uint_word_of_int_eq take_bit_eq_mod)

lemma unbe_be [wire_simps]: "unbe (be n v) = v mod 2 ^ (8 * n)"
proof (induction n arbitrary: v)
  case 0
  then show ?case by simp
next
  case (Suc n)
  have "unbe (be (Suc n) v) = 256 * ((v div 256) mod 2 ^ (8 * n)) + v mod 256"
    by (simp add: unbe_append uint_byte_of_int Suc.IH)
  also have "\<dots> = v mod (256 * 2 ^ (8 * n))"
    by (rule zmod_zmult2_eq [symmetric]) simp
  also have "(256::int) * 2 ^ (8 * n) = 2 ^ (8 * Suc n)"
    by (simp add: power_add)
  finally show ?case .
qed

lemma unbe_be_id [simp, wire_simps]:
  "0 \<le> v \<Longrightarrow> v < 2 ^ (8 * n) \<Longrightarrow> unbe (be n v) = v"
  by (simp add: unbe_be)

lemma unbe_nonneg [simp]: "0 \<le> unbe bs"
proof (induction bs rule: rev_induct)
  case Nil
  then show ?case by simp
next
  case (snoc b bs)
  then show ?case by (simp add: unbe_append)
qed

lemma unbe_bound: "unbe bs < 2 ^ (8 * length bs)"
proof (induction bs rule: rev_induct)
  case Nil
  then show ?case by simp
next
  case (snoc b bs)
  have "uint b < 256" using uint_lt2p [of b] by simp
  then have "unbe bs * 256 + uint b < (unbe bs + 1) * 256" by simp
  also have "\<dots> \<le> 2 ^ (8 * length bs) * 256"
    using snoc.IH by (intro mult_right_mono) auto
  finally show ?case by (simp add: unbe_append power_add mult.commute)
qed

lemma pack_field_Inr [simp, wire_simps]:
  "0 \<le> v \<Longrightarrow> v < 2 ^ (8 * n) \<Longrightarrow> pack_field n v = Inr (be n v)"
  by (simp add: pack_field_def)

lemma pack_field_Inl:
  "\<not> (0 \<le> v \<and> v < 2 ^ (8 * n)) \<Longrightarrow> pack_field n v = Inl StructError"
  by (simp add: pack_field_def)

lemma pack_Inr_iff:
  "(\<exists>bs. pack fs = Inr bs) \<longleftrightarrow> (\<forall>(n, v) \<in> set fs. 0 \<le> v \<and> v < 2 ^ (8 * n))"
  by (induction fs rule: pack.induct) (auto simp: pack_field_def split: sum.splits)

lemma pack_Inl: "pack fs = Inl e \<Longrightarrow> e = StructError"
  by (induction fs rule: pack.induct) (auto simp: pack_field_def split: sum.splits if_splits)

lemma length_pack: "pack fs = Inr bs \<Longrightarrow> length bs = sum_list (map fst fs)"
  by (induction fs arbitrary: bs rule: pack.induct)
     (auto simp: pack_field_def split: sum.splits if_splits)

lemma unpack_fields_append [wire_simps]:
  "length xs = n \<Longrightarrow> unpack_fields (n # ns) (xs @ ys) = unbe xs # unpack_fields ns ys"
  by simp

lemma length_slice [simp]: "length (slice a b xs) = min (b - a) (length xs - a)"
  by (simp add: slice_def)

end
