(* ===== verification/Checksum.thy ===== *)
theory Checksum
  imports Prelude
begin

unbundle bit_operations_syntax

text \<open>
  The Internet checksum as the course library computes it
  (\<open>calc_checksum\<close> of \<open>iputils\<close>, and the part of \<open>tcputils.calc_checksum\<close>
  after the pseudo-header is prepended); these modules are not in the
  repository, so the definitions follow the wire format of spec section 3:
  \<^verbatim>\<open>
  if len(data) % 2 == 1: data += b'\x00'
  checksum = 0
  for i in range(0, len(data), 2):
      x, = struct.unpack('!H', data[i:i+2])
      checksum += x
      while checksum > 0xffff:
          checksum = (checksum & 0xffff) + 1
  checksum = ~checksum
  return checksum & 0xffff
  \<close>
  The main theorem is the property every sender relies on: writing the
  checksum of a buffer into a zeroed 16-bit field of that buffer makes the
  checksum of the result zero, which is the receiver's validity test.
\<close>

section \<open>Definitions\<close>

text \<open>The inner \<open>while\<close> loop: end-around carry.\<close>
function carry_fold :: "int \<Rightarrow> int" where
  "carry_fold c = (if c > 0xffff then carry_fold ((c AND 0xffff) + 1) else c)"
  by pat_completeness auto
termination
proof (relation "measure nat")
  fix c :: int
  assume big: "0xffff < c"
  have "c AND 0xffff = c mod 65536"
    using take_bit_eq_mask [of 16 c] by (simp add: mask_eq_exp_minus_1 take_bit_eq_mod)
  moreover have "c mod 65536 + 1 < c"
  proof (cases "c = 65536")
    case False
    then have "65537 \<le> c" using big by simp
    moreover have "c mod 65536 < 65536" by simp
    ultimately show ?thesis by linarith
  qed simp
  ultimately show "((c AND 0xffff) + 1, c) \<in> measure nat"
    using big by simp
qed simp

declare carry_fold.simps [simp del]

text \<open>The padding of an odd-length buffer with one zero byte.\<close>
definition pad_even :: "bytes \<Rightarrow> bytes" where
  "pad_even d = (if odd (length d) then d @ [0] else d)"

text \<open>The 16-bit big-endian words \<open>struct.unpack('!H', data[i:i+2])\<close>.\<close>
fun words16 :: "bytes \<Rightarrow> int list" where
  "words16 (a # b # rest) = unbe [a, b] # words16 rest"
| "words16 _ = []"

text \<open>The outer \<open>for\<close> loop: add each word, then fold the carry.\<close>
definition sum16 :: "int \<Rightarrow> int list \<Rightarrow> int" where
  "sum16 c ws = foldl (\<lambda>acc x. carry_fold (acc + x)) c ws"

definition calc_checksum :: "bytes \<Rightarrow> int" where
  "calc_checksum d = (NOT (sum16 0 (words16 (pad_even d)))) AND 0xffff"

section \<open>Arithmetic of the end-around carry\<close>

lemma and_ffff: "(c::int) AND 0xffff = c mod 65536"
  using take_bit_eq_mask [of 16 c] by (simp add: mask_eq_exp_minus_1 take_bit_eq_mod)

lemma not_and_ffff: "0 \<le> s \<Longrightarrow> s \<le> 0xffff \<Longrightarrow> (NOT (s::int)) AND 0xffff = 0xffff - s"
proof -
  assume "0 \<le> s" "s \<le> 0xffff"
  have "(- s - 1) mod 65536 = ((65535 - s) - 65536) mod 65536"
    by (rule arg_cong [where f = "\<lambda>x. x mod 65536"]) simp
  also have "\<dots> = (65535 - s) mod 65536" by (rule minus_mod_self2)
  also have "\<dots> = 65535 - s" using \<open>0 \<le> s\<close> \<open>s \<le> 0xffff\<close> by simp
  finally show ?thesis by (simp add: and_ffff not_int_def)
qed

text \<open>Since every addend is below \<open>2^16\<close>, the carry loop runs at most once.\<close>
lemma carry_fold_once:
  assumes "0 \<le> c" "c \<le> 0x1fffe"
  shows "carry_fold c = (if c > 0xffff then c - 0xffff else c)"
proof (cases "c > 0xffff")
  case True
  have "c mod 65536 = (c - 65536) mod 65536"
    by (rule minus_mod_self2 [symmetric])
  also have "\<dots> = c - 65536"
    using True assms by (intro mod_pos_pos_trivial) auto
  finally have step: "(c AND 0xffff) + 1 = c - 0xffff"
    by (simp add: and_ffff)
  have stop: "\<not> c - 0xffff > 0xffff" using assms by simp
  have "carry_fold c = carry_fold (c - 0xffff)"
    using True by (simp only: carry_fold.simps [of c] step if_True)
  also have "\<dots> = c - 0xffff"
    using stop by (simp add: carry_fold.simps [of "c - 0xffff"])
  finally show ?thesis using True by simp
next
  case False
  then show ?thesis by (simp add: carry_fold.simps [of c])
qed

lemma words16_bound: "x \<in> set (words16 d) \<Longrightarrow> 0 \<le> x \<and> x \<le> 0xffff"
proof (induction d rule: words16.induct)
  case (1 a b rest)
  have "unbe [a, b] < 2 ^ 16" using unbe_bound [of "[a, b]"] by simp
  with 1 show ?case by auto
qed auto

text \<open>
  The loop invariant of \<open>sum16\<close>: the accumulator stays a 16-bit value,
  congruent to the plain sum modulo \<open>0xffff\<close>, and zero only when that sum is.
\<close>
lemma sum16_inv:
  assumes "0 \<le> c" "c \<le> 0xffff" "\<forall>x \<in> set ws. 0 \<le> x \<and> x \<le> 0xffff"
  shows "0 \<le> sum16 c ws \<and> sum16 c ws \<le> 0xffff
       \<and> sum16 c ws mod 0xffff = (c + sum_list ws) mod 0xffff
       \<and> (sum16 c ws = 0 \<longleftrightarrow> c + sum_list ws = 0)"
  using assms
proof (induction ws arbitrary: c)
  case Nil
  then show ?case by (simp add: sum16_def)
next
  case (Cons x ws)
  let ?c' = "carry_fold (c + x)"
  from Cons.prems have x: "0 \<le> x" "x \<le> 0xffff" by auto
  have c': "?c' = (if c + x > 0xffff then c + x - 0xffff else c + x)"
    using Cons.prems x by (intro carry_fold_once) auto
  have r: "0 \<le> ?c'" "?c' \<le> 0xffff" using c' Cons.prems x by auto
  have m: "?c' mod 0xffff = (c + x) mod 0xffff"
    using c' by (simp add: minus_mod_self2)
  have z: "?c' = 0 \<longleftrightarrow> c + x = 0" using c' Cons.prems x by auto
  have ws: "\<forall>y \<in> set ws. 0 \<le> y \<and> y \<le> 0xffff" using Cons.prems by simp
  have nn: "0 \<le> sum_list ws" using ws by (intro sum_list_nonneg) auto
  have IH: "0 \<le> sum16 ?c' ws \<and> sum16 ?c' ws \<le> 0xffff
       \<and> sum16 ?c' ws mod 0xffff = (?c' + sum_list ws) mod 0xffff
       \<and> (sum16 ?c' ws = 0 \<longleftrightarrow> ?c' + sum_list ws = 0)"
    using r ws by (rule Cons.IH)
  have s: "sum16 c (x # ws) = sum16 ?c' ws" by (simp add: sum16_def)
  have "(?c' + sum_list ws) mod 0xffff = (c + x + sum_list ws) mod 0xffff"
    using m by (metis mod_add_left_eq)
  moreover have "?c' + sum_list ws = 0 \<longleftrightarrow> c + x + sum_list ws = 0"
    using z r nn Cons.prems x by auto
  ultimately show ?case using IH s by (simp add: add.assoc)
qed

section \<open>Layout lemmas\<close>

lemma words16_append_even:
  "even (length pre) \<Longrightarrow> words16 (pre @ rest) = words16 pre @ words16 rest"
  by (induction pre rule: words16.induct) auto

lemma words16_be2: "words16 (be 2 v @ rest) = unbe (be 2 v) # words16 rest"
proof -
  obtain a b where "be 2 v = [a, b]"
    using length_be [of 2 v] by (cases "be 2 v" rule: list.exhaust; cases "tl (be 2 v)") auto
  then show ?thesis by simp
qed

lemma pad_even_append:
  "even (length pre) \<Longrightarrow> pad_even (pre @ rest) = pre @ pad_even rest"
  by (simp add: pad_even_def)

lemma words16_field:
  assumes "even (length pre)"
  shows "words16 (pad_even (pre @ be 2 v @ post)) =
           words16 pre @ unbe (be 2 v) # words16 (pad_even post)"
proof -
  have "even (length (be 2 v))" by simp
  then have "pad_even (pre @ be 2 v @ post) = pre @ be 2 v @ pad_even post"
    using assms by (simp add: pad_even_append [of pre] pad_even_append [of "be 2 v"])
  then show ?thesis
    using assms by (simp add: words16_append_even words16_be2)
qed

section \<open>Properties\<close>

lemma calc_checksum_bound: "0 \<le> calc_checksum d \<and> calc_checksum d \<le> 0xffff"
proof -
  have "\<forall>x \<in> set (words16 (pad_even d)). 0 \<le> x \<and> x \<le> 0xffff"
    using words16_bound by blast
  then have "0 \<le> sum16 0 (words16 (pad_even d)) \<and> sum16 0 (words16 (pad_even d)) \<le> 0xffff"
    using sum16_inv [of 0] by simp
  then show ?thesis by (simp add: calc_checksum_def not_and_ffff)
qed

text \<open>
  The checksum of a buffer whose checksum field (at an even offset) holds the
  checksum computed with that field zeroed is 0.
\<close>
theorem calc_checksum_insert:
  assumes ev: "even (length pre)"
  shows "calc_checksum (pre @ be 2 (calc_checksum (pre @ be 2 0 @ post)) @ post) = 0"
proof -
  let ?W1 = "words16 pre" and ?W2 = "words16 (pad_even post)"
  let ?S = "sum_list ?W1 + sum_list ?W2"
  have bnd: "\<forall>x \<in> set (?W1 @ y # ?W2). 0 \<le> x \<and> x \<le> 0xffff"
    if "0 \<le> y" "y \<le> 0xffff" for y
    using that words16_bound by fastforce
  have S0: "0 \<le> ?S"
    using words16_bound by (intro add_nonneg_nonneg sum_list_nonneg) auto
  define s where "s = sum16 0 (?W1 @ 0 # ?W2)"
  have inv0: "0 \<le> s \<and> s \<le> 0xffff \<and> s mod 0xffff = ?S mod 0xffff \<and> (s = 0 \<longleftrightarrow> ?S = 0)"
    using sum16_inv [of 0 "?W1 @ 0 # ?W2"] bnd [of 0] by (simp add: s_def)
  define C where "C = 0xffff - s"
  have chk: "calc_checksum (pre @ be 2 0 @ post) = C"
    using ev inv0 by (simp add: calc_checksum_def words16_field s_def C_def not_and_ffff)
  have C: "0 \<le> C" "C \<le> 0xffff" using inv0 by (auto simp: C_def)
  define r where "r = sum16 0 (?W1 @ C # ?W2)"
  have inv1: "0 \<le> r \<and> r \<le> 0xffff \<and> r mod 0xffff = (?S + C) mod 0xffff
              \<and> (r = 0 \<longleftrightarrow> ?S + C = 0)"
    using sum16_inv [of 0 "?W1 @ C # ?W2"] bnd [OF C] by (simp add: r_def algebra_simps)
  have "(?S + C) mod 0xffff = (s + C) mod 0xffff"
    using inv0 by (metis mod_add_left_eq)
  then have "r mod 0xffff = 0" using inv1 by (simp add: C_def)
  then have "r = 0 \<or> r = 0xffff" using inv1 by (auto elim!: dvdE simp: mod_eq_0_iff_dvd)
  moreover have "r \<noteq> 0"
  proof
    assume "r = 0"
    then have "?S = 0" "C = 0" using inv1 S0 C by auto
    then show False using inv0 by (simp add: C_def)
  qed
  ultimately have "r = 0xffff" by simp
  then show ?thesis
    using ev C chk by (simp add: calc_checksum_def words16_field r_def not_and_ffff)
qed

end
