(* ===== verification/Codec.thy ===== *)
theory Codec
  imports Checksum
begin

unbundle bit_operations_syntax

text \<open>
  The header codec the two source files import (\<open>from tcputils import *\<close>,
  \<open>from iputils import *\<close>). These modules are not part of the repository;
  their definitions here follow the fixed wire format of spec sections 3
  and 6 (20-byte IPv4 header without options, 20-byte TCP header without
  options, big-endian fields, checksum over a pseudo-header for TCP).
  Addresses, which the code passes around as dotted-quad strings, are
  32-bit words here: \<open>str2addr\<close> is their 4-byte big-endian form.
\<close>

section \<open>Constants of tcputils\<close>

definition FLAGS_FIN :: int where "FLAGS_FIN = 1"
definition FLAGS_SYN :: int where "FLAGS_SYN = 2"
definition FLAGS_ACK :: int where "FLAGS_ACK = 16"
definition MSS :: nat where "MSS = 1460"

section \<open>Addresses\<close>

definition str2addr :: "addr \<Rightarrow> bytes" where
  "str2addr a = be 4 (uint a)"

text \<open>\<open>addr2str\<close> of four bytes, read back as a word.\<close>
definition addr2str :: "bytes \<Rightarrow> addr" where
  "addr2str bs = word_of_int (unbe bs)"

section \<open>TCP header\<close>

record tcp_hdr =
  src_port :: int
  dst_port :: int
  seq_no :: int
  ack_no :: int
  hdr_flags :: int
  window_size :: int
  checksum :: int
  urg_ptr :: int

text \<open>
  \<open>make_header(src_port, dst_port, seq_no, ack_no, flags)\<close>:
  \<open>struct.pack('!HHIIHHHH', src_port, dst_port, seq_no, ack_no,
  (5 << 12) | flags, 8*MSS, 0, 0)\<close>.
\<close>
definition make_header :: "int \<Rightarrow> int \<Rightarrow> int \<Rightarrow> int \<Rightarrow> int \<Rightarrow> pyexc + bytes" where
  "make_header sp dp sq ak fl =
     pack [(2, sp), (2, dp), (4, sq), (4, ak), (2, push_bit 12 5 OR fl),
           (2, 8 * int MSS), (2, 0), (2, 0)]"

text \<open>\<open>read_header(segment)\<close>: \<open>struct.unpack('!HHIIHHHH', segment[:20])\<close>.\<close>
definition read_header :: "bytes \<Rightarrow> pyexc + tcp_hdr" where
  "read_header seg =
     (case unpack [2, 2, 4, 4, 2, 2, 2, 2] (take 20 seg) of
        Inl e \<Rightarrow> Inl e
      | Inr fs \<Rightarrow> Inr \<lparr>src_port = fs ! 0, dst_port = fs ! 1, seq_no = fs ! 2, ack_no = fs ! 3,
                       hdr_flags = fs ! 4, window_size = fs ! 5, checksum = fs ! 6,
                       urg_ptr = fs ! 7\<rparr>)"

text \<open>The sequence-number field, as \<open>read_header(segment)[2]\<close> reads it.\<close>
definition seg_seq :: "bytes \<Rightarrow> int" where
  "seg_seq seg = unbe (take 4 (drop 4 seg))"

text \<open>
  \<open>calc_checksum(segment, src_addr, dst_addr)\<close> of tcputils: the Internet
  checksum over the pseudo-header (addresses, protocol 6, segment length)
  followed by the segment.
\<close>
definition tcp_calc_checksum :: "bytes \<Rightarrow> addr \<Rightarrow> addr \<Rightarrow> pyexc + int" where
  "tcp_calc_checksum seg s d =
     (case pack [(2, 6), (2, int (length seg))] of
        Inl e \<Rightarrow> Inl e
      | Inr ph \<Rightarrow> Inr (calc_checksum (str2addr s @ str2addr d @ ph @ seg)))"

text \<open>
  \<open>fix_checksum(segment, src_addr, dst_addr)\<close>: zero bytes 16--17, compute
  the checksum, write it there (Python slice assignment \<open>seg[16:18] = ...\<close>).
\<close>
definition fix_checksum :: "bytes \<Rightarrow> addr \<Rightarrow> addr \<Rightarrow> pyexc + bytes" where
  "fix_checksum seg s d =
     (let seg0 = take 16 seg @ [0, 0] @ drop 18 seg in
      case tcp_calc_checksum seg0 s d of
        Inl e \<Rightarrow> Inl e
      | Inr c \<Rightarrow> Inr (take 16 seg0 @ be 2 c @ drop 18 seg0))"

section \<open>IPv4 header\<close>

record ipv4_hdr =
  dscp :: int
  ecn :: int
  identification :: int
  ip_flags :: int
  frag_offset :: int
  ttl :: int
  proto :: int
  src_addr :: addr
  dst_addr :: addr
  payload :: bytes

text \<open>
  \<open>read_ipv4_header(datagram)\<close>: unpack the fixed header
  (\<open>'!BBHHHBBHII'\<close>), check the version, split the packed fields as the wire
  format defines them (flags are the top 3 bits of the flags/offset field),
  and slice the payload by the header length and the total length.
\<close>
definition read_ipv4_header :: "bytes \<Rightarrow> pyexc + ipv4_hdr" where
  "read_ipv4_header dg =
     (case unpack [1, 1, 2, 2, 2, 1, 1, 2, 4, 4] (take 20 dg) of
        Inl e \<Rightarrow> Inl e
      | Inr fs \<Rightarrow>
          (let vihl = fs ! 0; dscpecn = fs ! 1; total_len = fs ! 2;
               flagsfrag = fs ! 4; ihl = vihl AND 0xf in
           if drop_bit 4 vihl \<noteq> 4 then Inl AssertionError
           else Inr \<lparr>dscp = drop_bit 2 dscpecn, ecn = dscpecn AND 0x3,
                     identification = fs ! 3, ip_flags = drop_bit 13 flagsfrag,
                     frag_offset = flagsfrag AND 0x1fff, ttl = fs ! 5, proto = fs ! 6,
                     src_addr = addr2str (slice 12 16 dg), dst_addr = addr2str (slice 16 20 dg),
                     payload = slice (4 * nat ihl) (nat total_len) dg\<rparr>))"

section \<open>Round trips and sizes\<close>

lemma unpack_fields_pack:
  "pack fs = Inr bs \<Longrightarrow> unpack_fields (map fst fs) (bs @ rest) = map snd fs"
proof (induction fs arbitrary: bs)
  case Nil
  then show ?case by simp
next
  case (Cons f fs)
  obtain n v where f: "f = (n, v)" by (cases f)
  with Cons.prems obtain bs' where bs': "pack fs = Inr bs'" and bs: "bs = be n v @ bs'"
    and rng: "0 \<le> v" "v < 2 ^ (8 * n)"
    by (auto simp: pack_field_def split: sum.splits if_splits)
  then show ?case using Cons.IH [OF bs'] f by simp
qed

lemma make_header_length: "make_header sp dp sq ak fl = Inr h \<Longrightarrow> length h = 20"
  unfolding make_header_def by (drule length_pack) simp

lemma make_header_Inr_iff:
  "(\<exists>h. make_header sp dp sq ak fl = Inr h) \<longleftrightarrow>
     0 \<le> sp \<and> sp < 2 ^ 16 \<and> 0 \<le> dp \<and> dp < 2 ^ 16 \<and> 0 \<le> sq \<and> sq < 2 ^ 32 \<and>
     0 \<le> ak \<and> ak < 2 ^ 32 \<and> 0 \<le> push_bit 12 5 OR fl \<and> push_bit 12 5 OR fl < 2 ^ 16"
  unfolding make_header_def pack_Inr_iff by (simp add: MSS_def)

lemma make_header_Inl:
  "make_header sp dp sq ak fl = Inl e \<Longrightarrow> e = StructError"
  unfolding make_header_def by (rule pack_Inl)

text \<open>What \<open>read_header\<close> returns on a segment that starts with a made header.\<close>
lemma read_make_header:
  assumes "make_header sp dp sq ak fl = Inr h"
  shows "read_header (h @ p) =
           Inr \<lparr>src_port = sp, dst_port = dp, seq_no = sq, ack_no = ak,
                hdr_flags = push_bit 12 5 OR fl, window_size = 8 * int MSS,
                checksum = 0, urg_ptr = 0\<rparr>"
proof -
  have l: "length h = 20" using assms by (rule make_header_length)
  have "unpack_fields [2, 2, 4, 4, 2, 2, 2, 2] (h @ []) =
          [sp, dp, sq, ak, push_bit 12 5 OR fl, 8 * int MSS, 0, 0]"
    using unpack_fields_pack [OF assms [unfolded make_header_def], of "[]"] by simp
  then show ?thesis using l by (simp add: read_header_def unpack_def)
qed

lemma seg_seq_make_header:
  assumes "make_header sp dp sq ak fl = Inr h"
  shows "seg_seq (h @ p) = sq"
proof -
  have l: "length h = 20" using assms by (rule make_header_length)
  obtain b where h: "h = be 2 sp @ be 2 dp @ be 4 sq @ b" and "0 \<le> sq" "sq < 2 ^ 32"
    using assms by (auto simp: make_header_def pack_field_def split: sum.splits if_splits)
  then show ?thesis by (simp add: seg_seq_def)
qed

lemma length_fix_checksum:
  "length seg \<ge> 18 \<Longrightarrow> fix_checksum seg s d = Inr r \<Longrightarrow> length r = length seg"
  by (auto simp: fix_checksum_def Let_def split: sum.splits)

text \<open>\<open>fix_checksum\<close> changes the checksum field only.\<close>
lemma fix_checksum_frame:
  assumes "length seg \<ge> 18" "fix_checksum seg s d = Inr r"
  shows "take 16 r = take 16 seg \<and> drop 18 r = drop 18 seg"
  using assms by (auto simp: fix_checksum_def Let_def split: sum.splits)

lemma seg_seq_fix_checksum:
  "length seg \<ge> 18 \<Longrightarrow> fix_checksum seg s d = Inr r \<Longrightarrow> seg_seq r = seg_seq seg"
proof -
  assume a: "length seg \<ge> 18" "fix_checksum seg s d = Inr r"
  then have "take 16 r = take 16 seg" by (simp add: fix_checksum_frame)
  then have "take 4 (drop 4 (take 16 r)) = take 4 (drop 4 (take 16 seg))" by simp
  then show ?thesis by (simp add: seg_seq_def take_drop)
qed

lemma fix_checksum_Inr_iff:
  "length seg \<ge> 18 \<Longrightarrow> (\<exists>r. fix_checksum seg s d = Inr r) \<longleftrightarrow> length seg < 2 ^ 16"
  by (auto simp: fix_checksum_def tcp_calc_checksum_def Let_def pack_field_def
      split: sum.splits if_splits)

lemma read_header_eq:
  assumes "length seg \<ge> 20"
  shows "read_header seg = Inr \<lparr>src_port = unbe (take 2 seg), dst_port = unbe (take 2 (drop 2 seg)),
     seq_no = unbe (take 4 (drop 4 seg)), ack_no = unbe (take 4 (drop 8 seg)),
     hdr_flags = unbe (take 2 (drop 12 seg)), window_size = unbe (take 2 (drop 14 seg)),
     checksum = unbe (take 2 (drop 16 seg)), urg_ptr = unbe (take 2 (drop 18 seg))\<rparr>"
  using assms by (simp add: read_header_def unpack_def min_def take_drop)

lemma take_drop_prefix:
  "take 16 r = take 16 seg \<Longrightarrow> j + k \<le> 16 \<Longrightarrow> take k (drop j r) = take k (drop j seg)"
proof -
  assume a: "take 16 r = take 16 seg" "j + k \<le> 16"
  have "take (k + j) r = take (k + j) (take 16 r)" using a(2) by (simp add: min_def)
  also have "\<dots> = take (k + j) seg" using a by (simp add: min_def)
  finally show ?thesis by (simp add: take_drop)
qed

lemma read_header_fix_checksum:
  assumes "length seg \<ge> 20" "fix_checksum seg s d = Inr r" "read_header seg = Inr hdr"
  shows "\<exists>x. read_header r = Inr (hdr\<lparr>checksum := x\<rparr>)"
proof -
  have fr: "take 16 r = take 16 seg" "drop 18 r = drop 18 seg" "length r = length seg"
    using assms fix_checksum_frame [of seg s d r] length_fix_checksum [of seg s d r] by simp_all
  have p: "take 2 r = take 2 seg" "take 2 (drop 2 r) = take 2 (drop 2 seg)"
    "take 4 (drop 4 r) = take 4 (drop 4 seg)" "take 4 (drop 8 r) = take 4 (drop 8 seg)"
    "take 2 (drop 12 r) = take 2 (drop 12 seg)" "take 2 (drop 14 r) = take 2 (drop 14 seg)"
    using take_drop_prefix [OF fr(1), of 0 2] take_drop_prefix [OF fr(1), of 2 2]
      take_drop_prefix [OF fr(1), of 4 4] take_drop_prefix [OF fr(1), of 8 4]
      take_drop_prefix [OF fr(1), of 12 2] take_drop_prefix [OF fr(1), of 14 2] by simp_all
  have "hdr = \<lparr>src_port = unbe (take 2 seg), dst_port = unbe (take 2 (drop 2 seg)),
     seq_no = unbe (take 4 (drop 4 seg)), ack_no = unbe (take 4 (drop 8 seg)),
     hdr_flags = unbe (take 2 (drop 12 seg)), window_size = unbe (take 2 (drop 14 seg)),
     checksum = unbe (take 2 (drop 16 seg)), urg_ptr = unbe (take 2 (drop 18 seg))\<rparr>"
    using assms(3) read_header_eq [OF assms(1)] by simp
  then show ?thesis
    using read_header_eq [of r] assms(1) fr p by auto
qed

section \<open>Checksum of a fixed segment\<close>

text \<open>
  A segment after \<open>fix_checksum seg src dst\<close> passes the receiver's test
  \<open>calc_checksum(pacote, origem, destino) != 0\<close> (tcp.py line 25) with the
  same addresses: the pseudo-header is 12 bytes, so the checksum field sits
  at the even offset 28 of the summed buffer.
\<close>
theorem fix_checksum_valid:
  assumes "length seg \<ge> 18" "fix_checksum seg s d = Inr r"
  shows "tcp_calc_checksum r s d = Inr 0"
proof -
  let ?seg0 = "take 16 seg @ [0, 0] @ drop 18 seg"
  have l0: "length ?seg0 = length seg" using assms(1) by simp
  obtain ph c where ph: "pack [(2, 6), (2, int (length seg))] = Inr ph"
    and c: "calc_checksum (str2addr s @ str2addr d @ ph @ ?seg0) = c"
    and r: "r = take 16 ?seg0 @ be 2 c @ drop 18 ?seg0"
    using assms(2) l0 by (auto simp: fix_checksum_def tcp_calc_checksum_def Let_def
        split: sum.splits)
  have lr: "length r = length seg" using assms by (rule length_fix_checksum)
  let ?pre = "str2addr s @ str2addr d @ ph @ take 16 seg"
  have lph: "length ph = 4" using length_pack [OF ph] by simp
  have ev: "even (length ?pre)" using assms(1) lph by (simp add: str2addr_def)
  have t16: "take 16 ?seg0 = take 16 seg" "drop 18 ?seg0 = drop 18 seg"
    using assms(1) by auto
  have "str2addr s @ str2addr d @ ph @ ?seg0 = ?pre @ be 2 0 @ drop 18 seg"
    by (simp add: numeral_2_eq_2)
  then have "c = calc_checksum (?pre @ be 2 0 @ drop 18 seg)" using c by simp
  then have "calc_checksum (?pre @ be 2 c @ drop 18 seg) = 0"
    using calc_checksum_insert [OF ev] by simp
  then show ?thesis
    using ph lr r t16 by (simp add: tcp_calc_checksum_def)
qed

end
