(* ===== verification/Connection.thy ===== *)
theory Connection
  imports Codec
begin

unbundle bit_operations_syntax

text \<open>
  One TCP connection, class \<open>NodoConexao\<close> of \<open>src/tcp.py\<close> (lines 48--165).
  The object's fields are the record \<open>conexao\<close>; each method is a function
  from the current record to the exception it raises (if any), the record
  as the method leaves it (Python does not roll mutations back on an
  exception), and the list of effects it performs in order: segments handed
  to the IP layer (\<open>self.nucleo.enlace.enviar\<close>) and deliveries to the
  registered listener (\<open>self.ouvinte\<close>). The clock \<open>time.time()\<close> is the
  argument \<open>now\<close> of a handler (one reading per handler); the asyncio timer
  is the field \<open>cronometro\<close>, \<open>Some d\<close> while a timer armed with delay
  \<open>d\<close> is pending. Python floats (window limit, RTT estimator) are rationals.
\<close>

section \<open>State\<close>

text \<open>The 4-tuple (remote address, remote port, local address, local port).\<close>
type_synonym chave = "addr \<times> int \<times> addr \<times> int"

text \<open>An in-flight entry \<open>(tempo, segmento, destino, tamanho)\<close>.\<close>
type_synonym enviado = "rat \<times> bytes \<times> addr \<times> nat"

text \<open>A queued entry \<open>(segmento, ip, tamanho)\<close>.\<close>
type_synonym pendente = "bytes \<times> addr \<times> nat"

record conexao =
  chave :: chave
  ouvinte :: bool
  seq_atual :: int
  seq_esperado :: int
  ack_retorno :: int
  enviados :: "enviado list"
  pendentes :: "pendente list"
  ocupacao :: int
  limite_janela :: rat
  rtt_inicial :: rat
  rtt_estimado :: rat
  rtt_variacao :: rat
  tempo_limite :: rat
  cronometro :: "rat option"
  primeiro_rtt :: bool

text \<open>Effects of a connection, in the order the code performs them.\<close>
datatype efeito =
    Tx bytes addr
  | Entrega bytes

type_synonym resultado = "pyexc option \<times> conexao \<times> efeito list"

section \<open>Operations\<close>

text \<open>\<open>NodoConexao.__init__(nucleo, chave, seq, ack)\<close>; \<open>isn\<close> is the value
  drawn by \<open>random.randint(0, 0xffff)\<close>.\<close>
definition nodo_conexao :: "chave \<Rightarrow> int \<Rightarrow> int \<Rightarrow> int \<Rightarrow> conexao" where
  "nodo_conexao k seq ack isn =
     \<lparr>chave = k, ouvinte = False, seq_atual = isn, seq_esperado = seq + 1,
      ack_retorno = ack, enviados = [], pendentes = [], ocupacao = 0,
      limite_janela = of_nat MSS, rtt_inicial = 1, rtt_estimado = 1,
      rtt_variacao = 1 / 2, tempo_limite = 1, cronometro = None, primeiro_rtt = False\<rparr>"

text \<open>\<open>if self.ouvinte: self.ouvinte(self, dados)\<close>.\<close>
definition entregar :: "conexao \<Rightarrow> bytes \<Rightarrow> efeito list" where
  "entregar c dados = (if ouvinte c then [Entrega dados] else [])"

text \<open>
  The reply pattern of the code: unpack the key, \<open>make_header(dst_p, src_p,
  seq, ack, flags)\<close>, append the payload, \<open>fix_checksum(.., dst_ip, src_ip)\<close>.
\<close>
definition montar_segmento :: "chave \<Rightarrow> int \<Rightarrow> int \<Rightarrow> int \<Rightarrow> bytes \<Rightarrow> pyexc + bytes" where
  "montar_segmento k sq ak fl dados =
     (case k of (src_ip, src_p, dst_ip, dst_p) \<Rightarrow>
        (case make_header dst_p src_p sq ak fl of
           Inl e \<Rightarrow> Inl e
         | Inr h \<Rightarrow> fix_checksum (h @ dados) dst_ip src_ip))"

text \<open>\<open>_reenvio\<close> (lines 67--75): the retransmission timer fired.\<close>
definition reenvio :: "conexao \<Rightarrow> conexao \<times> efeito list" where
  "reenvio c =
     (let c1 = c\<lparr>cronometro := None, limite_janela := limite_janela c / 2\<rparr> in
      case enviados c1 of
        [] \<Rightarrow> (c1, [])
      | (_, seg, d, tam) # rest \<Rightarrow>
          (c1\<lparr>enviados := (0, seg, d, tam) # rest, cronometro := Some (tempo_limite c1)\<rparr>,
           [Tx seg d]))"

text \<open>
  The drain loop of lines 103--107. Its last argument is the loop variable
  \<open>tempo\<close>: \<open>None\<close> while it is unbound (Python scoping: it is bound only
  once the loop body has run).
\<close>
fun drenar :: "int \<Rightarrow> enviado list \<Rightarrow> int \<Rightarrow> rat option \<Rightarrow> enviado list \<times> int \<times> rat option" where
  "drenar ack [] oc t = ([], oc, t)"
| "drenar ack ((tm, seg, d, tam) # es) oc t =
     (if seg_seq seg = ack then (es, oc - int tam, Some tm)
      else drenar ack es (oc - int tam) (Some tm))"

text \<open>
  The RTT sample of lines 109--118: only when the last retired entry has a
  valid (non-zero) timestamp; the first sample seeds the estimator.
\<close>
definition atualizar_rtt :: "rat \<Rightarrow> rat \<Rightarrow> conexao \<Rightarrow> conexao" where
  "atualizar_rtt now tempo c =
     (if tempo \<noteq> 0 then
        (let decorrido = now - tempo;
             c1 = (if \<not> primeiro_rtt c
                   then c\<lparr>rtt_estimado := decorrido, rtt_variacao := decorrido / 2,
                          primeiro_rtt := True\<rparr>
                   else (let est = 0.875 * rtt_estimado c + 0.125 * decorrido in
                         c\<lparr>rtt_estimado := est,
                           rtt_variacao := 0.75 * rtt_variacao c + 0.25 * \<bar>decorrido - est\<bar>\<rparr>))
         in c1\<lparr>tempo_limite := rtt_estimado c1 + 4 * rtt_variacao c1\<rparr>)
      else c)"

text \<open>Additive increase, lines 120--122.\<close>
definition crescer_janela :: "bool \<Rightarrow> conexao \<Rightarrow> conexao" where
  "crescer_janela houve_envio c =
     (if houve_envio \<and> ocupacao c = 0
      then c\<lparr>limite_janela := limite_janela c + of_nat MSS\<rparr> else c)"

text \<open>Re-arming the retransmission timer, lines 133--134.\<close>
definition rearmar :: "conexao \<Rightarrow> conexao" where
  "rearmar c = (if enviados c \<noteq> [] then c\<lparr>cronometro := Some (tempo_limite c)\<rparr> else c)"

text \<open>The admission loop of lines 124--131 over the pending queue.\<close>
fun admitir :: "rat \<Rightarrow> pendente list \<Rightarrow> conexao \<Rightarrow> conexao \<times> efeito list" where
  "admitir now [] c = (c\<lparr>pendentes := []\<rparr>, [])"
| "admitir now ((seg, ip, tam) # ps) c =
     (if of_int (ocupacao c + int tam) > limite_janela c
      then (c\<lparr>pendentes := (seg, ip, tam) # ps\<rparr>, [])
      else (let c1 = c\<lparr>ocupacao := ocupacao c + int tam,
                       enviados := enviados c @ [(now, seg, ip, tam)]\<rparr>;
                (c2, efs) = admitir now ps c1
            in (c2, Tx seg ip # efs)))"

text \<open>
  The acknowledgment branch of \<open>processar_segmento\<close> (lines 99--134), after
  the optional pure-ACK reply: cancel the timer, drain, sample the RTT,
  grow the window, admit queued segments, re-arm the timer.
\<close>
definition tratar_ack :: "rat \<Rightarrow> int \<Rightarrow> conexao \<Rightarrow> resultado" where
  "tratar_ack now ack c =
     (let houve_envio = ocupacao c > 0;
          c1 = c\<lparr>cronometro := None\<rparr>;
          (rest, oc, tempo) = drenar ack (enviados c1) (ocupacao c1) None;
          c2 = c1\<lparr>enviados := rest, ocupacao := oc\<rparr>
      in case tempo of
           None \<Rightarrow> (Some UnboundLocalError, c2, [])
         | Some t \<Rightarrow>
             (let c3 = crescer_janela houve_envio (atualizar_rtt now t c2);
                  (c4, efs) = admitir now (pendentes c3) c3
              in (None, rearmar c4, efs)))"

text \<open>\<open>processar_segmento(seq, ack, flags, conteudo)\<close>, lines 77--134.\<close>
definition processar_segmento :: "rat \<Rightarrow> int \<Rightarrow> int \<Rightarrow> int \<Rightarrow> bytes \<Rightarrow> conexao \<Rightarrow> resultado" where
  "processar_segmento now seq ack flags conteudo c =
     (if flags AND FLAGS_FIN \<noteq> 0 then
        (let efs = entregar c [];
             c1 = c\<lparr>ack_retorno := ack\<rparr>
         in case montar_segmento (chave c1) (seq_atual c1) (seq_esperado c1 + 1) flags [] of
              Inl e \<Rightarrow> (Some e, c1, efs)
            | Inr r \<Rightarrow> (None, c1, efs @ [Tx r (fst (chave c1))]))
      else if seq = seq_esperado c then
        (let c1 = c\<lparr>seq_esperado := seq_esperado c + int (length conteudo)\<rparr>;
             efs = entregar c1 conteudo;
             c2 = c1\<lparr>ack_retorno := ack\<rparr>
         in if flags AND FLAGS_ACK \<noteq> 0 then
              (if conteudo \<noteq> [] then
                 (case montar_segmento (chave c2) (seq_atual c2) (seq_esperado c2) flags [] of
                    Inl e \<Rightarrow> (Some e, c2, efs)
                  | Inr r \<Rightarrow>
                      (let (ex, c3, efs') = tratar_ack now ack c2
                       in (ex, c3, efs @ [Tx r (fst (chave c2))] @ efs')))
               else (let (ex, c3, efs') = tratar_ack now ack c2 in (ex, c3, efs @ efs')))
            else (None, c2, efs))
      else (None, c, []))"

text \<open>\<open>registrar_recebedor(funcao)\<close>: a listener is now registered.\<close>
definition registrar_recebedor :: "conexao \<Rightarrow> conexao" where
  "registrar_recebedor c = c\<lparr>ouvinte := True\<rparr>"

text \<open>\<open>ceil(len(dados) / MSS)\<close> and the slice \<open>dados[i*MSS : min((i+1)*MSS, len(dados))]\<close>.\<close>
definition partes :: "bytes \<Rightarrow> nat" where
  "partes dados = (length dados + MSS - 1) div MSS"

definition pedaco :: "bytes \<Rightarrow> nat \<Rightarrow> bytes" where
  "pedaco dados i = slice (i * MSS) (min ((i + 1) * MSS) (length dados)) dados"

text \<open>One iteration of the loop of \<open>enviar\<close> (lines 143--158).\<close>
definition enviar_parte :: "rat \<Rightarrow> bytes \<Rightarrow> conexao \<Rightarrow> resultado" where
  "enviar_parte now ped c =
     (case chave c of (src_ip, src_p, dst_ip, dst_p) \<Rightarrow>
       (let c1 = c\<lparr>seq_atual := ack_retorno c\<rparr> in
        case make_header dst_p src_p (seq_atual c1) (seq_esperado c1) FLAGS_ACK of
          Inl e \<Rightarrow> (Some e, c1, [])
        | Inr h \<Rightarrow>
            (let segmento = h @ ped;
                 tam = length ped;
                 c2 = c1\<lparr>ack_retorno := ack_retorno c1 + int tam\<rparr>
             in case fix_checksum segmento dst_ip src_ip of
                  Inl e \<Rightarrow> (Some e, c2, [])
                | Inr resposta \<Rightarrow>
                    (if of_int (ocupacao c2 + int tam) \<le> limite_janela c2 then
                       (let c3 = c2\<lparr>enviados := enviados c2 @ [(now, resposta, src_ip, tam)],
                                   ocupacao := ocupacao c2 + int tam\<rparr>;
                            c4 = (if cronometro c3 = None
                                  then c3\<lparr>cronometro := Some (tempo_limite c3)\<rparr> else c3)
                        in (None, c4, [Tx resposta src_ip]))
                     else (None, c2\<lparr>pendentes := pendentes c2 @ [(resposta, src_ip, tam)]\<rparr>, [])))))"

fun enviar_loop :: "rat \<Rightarrow> bytes \<Rightarrow> nat list \<Rightarrow> conexao \<Rightarrow> resultado" where
  "enviar_loop now dados [] c = (None, c, [])"
| "enviar_loop now dados (i # is) c =
     (case enviar_parte now (pedaco dados i) c of
        (Some e, c1, efs) \<Rightarrow> (Some e, c1, efs)
      | (None, c1, efs) \<Rightarrow>
          (let (ex, c2, efs') = enviar_loop now dados is c1 in (ex, c2, efs @ efs')))"

text \<open>\<open>enviar(dados)\<close>, lines 139--158.\<close>
definition enviar :: "rat \<Rightarrow> bytes \<Rightarrow> conexao \<Rightarrow> resultado" where
  "enviar now dados c = enviar_loop now dados [0..<partes dados] c"

text \<open>\<open>fechar()\<close>, lines 160--165.\<close>
definition fechar :: "conexao \<Rightarrow> resultado" where
  "fechar c =
     (let c1 = c\<lparr>seq_atual := ack_retorno c\<rparr> in
      case montar_segmento (chave c1) (seq_atual c1) (seq_esperado c1 + 1) FLAGS_FIN [] of
        Inl e \<Rightarrow> (Some e, c1, [])
      | Inr r \<Rightarrow> (None, c1, [Tx r (fst (chave c1))]))"

section \<open>Events, reachable states and the invariant\<close>

text \<open>
  The events a connection reacts to: a segment dispatched by the server, the
  application's \<open>enviar\<close> and \<open>fechar\<close>, the firing of the armed timer,
  and the registration of a listener.
\<close>
datatype evento =
    Segmento rat int int int bytes
  | Enviar rat bytes
  | Fechar
  | Disparo
  | Registro

fun passo :: "conexao \<Rightarrow> evento \<Rightarrow> resultado" where
  "passo c (Segmento now seq ack fl dados) = processar_segmento now seq ack fl dados c"
| "passo c (Enviar now dados) = enviar now dados c"
| "passo c Fechar = fechar c"
| "passo c Disparo = (let (c', efs) = reenvio c in (None, c', efs))"
| "passo c Registro = (None, registrar_recebedor c, [])"

text \<open>The timer callback runs only while a timer is armed (\<open>call_later\<close>).\<close>
fun habilitado :: "conexao \<Rightarrow> evento \<Rightarrow> bool" where
  "habilitado c Disparo = (cronometro c \<noteq> None)"
| "habilitado c _ = True"

inductive alcancavel :: "conexao \<Rightarrow> bool" where
  inicio: "alcancavel (nodo_conexao k seq ack isn)"
| passo: "alcancavel c \<Longrightarrow> habilitado c ev \<Longrightarrow> passo c ev = (ex, c', efs) \<Longrightarrow> alcancavel c'"

text \<open>Bytes in flight of an entry list, as \<open>ocupacao\<close> counts them.\<close>
definition tsum :: "enviado list \<Rightarrow> int" where
  "tsum es = sum_list (map (\<lambda>(_, _, _, n). int n) es)"

definition psum :: "pendente list \<Rightarrow> int" where
  "psum ps = sum_list (map (\<lambda>(_, _, n). int n) ps)"

text \<open>A queued segment: a 20-byte header followed by 1 to \<open>MSS\<close> payload bytes.\<close>
definition entrada_ok :: "bytes \<Rightarrow> nat \<Rightarrow> bool" where
  "entrada_ok s n \<longleftrightarrow> 0 < n \<and> n \<le> MSS \<and> length s = 20 + n"

definition envs_ok :: "enviado list \<Rightarrow> bool" where
  "envs_ok es = list_all (\<lambda>(_, s, _, n). entrada_ok s n) es"

definition pends_ok :: "pendente list \<Rightarrow> bool" where
  "pends_ok ps = list_all (\<lambda>(s, _, n). entrada_ok s n) ps"

text \<open>
  The connection invariant: the occupancy counts the bytes in flight; a
  timer is armed exactly while data is in flight; the window is positive,
  and at least one segment wide when nothing is in flight; queued data
  implies data in flight (so a timer is armed and the queue cannot stall);
  every queued segment is a header plus 1 to \<open>MSS\<close> bytes.
\<close>
definition conn_inv :: "conexao \<Rightarrow> bool" where
  "conn_inv c \<longleftrightarrow>
     ocupacao c = tsum (enviados c)
   \<and> (enviados c \<noteq> [] \<longleftrightarrow> cronometro c \<noteq> None)
   \<and> 0 < limite_janela c
   \<and> (enviados c = [] \<longrightarrow> of_nat MSS \<le> limite_janela c)
   \<and> (pendentes c \<noteq> [] \<longrightarrow> enviados c \<noteq> [])
   \<and> envs_ok (enviados c)
   \<and> pends_ok (pendentes c)"

text \<open>
  What a well-formed outgoing segment is: its header reads back with the
  given ports, sequence and acknowledgment numbers and flags (data offset 5),
  the payload follows the 20-byte header, and the checksum over the
  pseudo-header of \<open>s\<close> and \<open>d\<close> verifies.
\<close>
definition segmento_ok ::
  "bytes \<Rightarrow> addr \<Rightarrow> addr \<Rightarrow> int \<Rightarrow> int \<Rightarrow> int \<Rightarrow> int \<Rightarrow> int \<Rightarrow> bytes \<Rightarrow> bool" where
  "segmento_ok seg s d sp dp sq ak fl dados \<longleftrightarrow>
     (case read_header seg of
        Inl _ \<Rightarrow> False
      | Inr h \<Rightarrow> src_port h = sp \<and> dst_port h = dp \<and> seq_no h = sq \<and> ack_no h = ak
                \<and> hdr_flags h = push_bit 12 5 OR fl)
   \<and> drop 20 seg = dados \<and> tcp_calc_checksum seg s d = Inr 0"

subsection \<open>Runs and concrete states\<close>

text \<open>
  A run of the connection: the events in order, each applied when enabled.
  The state is kept after an exception, as the Python object keeps its
  mutated fields when a handler raises.
\<close>
fun executar :: "conexao \<Rightarrow> evento list \<Rightarrow> conexao" where
  "executar c [] = c"
| "executar c (ev # evs) = executar (if habilitado c ev then fst (snd (passo c ev)) else c) evs"

definition k_teste :: chave where
  "k_teste = (1, 1000, 2, 80)"

text \<open>The connection the server creates for a SYN with sequence number 100.\<close>
definition c_inicial :: conexao where
  "c_inicial = nodo_conexao k_teste 100 0 5000"

text \<open>
  The handshake's final ACK, a 100-byte send, four timeouts (the window
  falls to 1460/16 bytes), and a second 100-byte send that must queue.
\<close>
definition eventos_teste :: "evento list" where
  "eventos_teste = [Segmento 5 101 5001 0x5010 [], Enviar 7 (replicate 100 65),
                    Disparo, Disparo, Disparo, Disparo, Enviar 9 (replicate 100 66)]"

text \<open>A segment whose sequence-number field holds \<open>sq\<close>, with one payload byte.\<close>
definition seg_teste :: "int \<Rightarrow> bytes" where
  "seg_teste sq = [0, 0, 0, 0] @ be 4 sq @ replicate 13 0"

text \<open>Two one-byte segments in flight, at sequence numbers 5000 and 5001.\<close>
definition c_teste :: conexao where
  "c_teste = c_inicial
     \<lparr>enviados := [(1, seg_teste 5000, 1, 1), (1, seg_teste 5001, 1, 1)],
       ocupacao := 2, cronometro := Some 1\<rparr>"

section \<open>Loop lemmas\<close>

lemma tsum_simps [simp]:
  "tsum [] = 0" "tsum ((t, s, d, n) # es) = int n + tsum es"
  "tsum (xs @ ys) = tsum xs + tsum ys"
  by (simp_all add: tsum_def)

lemma psum_simps [simp]:
  "psum [] = 0" "psum ((s, d, n) # ps) = int n + psum ps"
  "psum (xs @ ys) = psum xs + psum ys"
  by (simp_all add: psum_def)

lemma tsum_stamp [simp]: "tsum (map (Pair now) ps) = psum ps"
  by (induction ps) auto

text \<open>What the drain loop removes: a prefix of the queue, its bytes, and the
  timestamp of the last entry it popped.\<close>
lemma drenar_split:
  "drenar ack es oc t = (rest, oc', tm) \<Longrightarrow>
     \<exists>pre. es = pre @ rest \<and> oc' = oc - tsum pre
          \<and> tm = (if pre = [] then t else Some (fst (last pre))) \<and> (es \<noteq> [] \<longrightarrow> pre \<noteq> [])"
proof (induction ack es oc t arbitrary: rest oc' tm rule: drenar.induct)
  case (1 ack oc t)
  then show ?case by simp
next
  case (2 ack tm0 seg d tam es oc t)
  show ?case
  proof (cases "seg_seq seg = ack")
    case True
    with "2.prems" have "rest = es" "oc' = oc - int tam" "tm = Some tm0" by simp_all
    then show ?thesis by (intro exI [of _ "[(tm0, seg, d, tam)]"]) simp
  next
    case False
    with "2.prems" have r: "drenar ack es (oc - int tam) (Some tm0) = (rest, oc', tm)" by simp
    from "2.IH" [OF False r] obtain pre where p: "es = pre @ rest" "oc' = oc - int tam - tsum pre"
      "tm = (if pre = [] then Some tm0 else Some (fst (last pre)))" by blast
    then have "tm = Some (fst (last ((tm0, seg, d, tam) # pre)))" by simp
    with p show ?thesis by (intro exI [of _ "(tm0, seg, d, tam) # pre"]) simp
  qed
qed

text \<open>The admission loop moves a prefix of the pending queue into flight and
  stops at the first entry that does not fit the window.\<close>
lemma admitir_shape:
  "admitir now ps c = (c', efs) \<Longrightarrow>
     \<exists>k \<le> length ps.
        c' = c\<lparr>ocupacao := ocupacao c + psum (take k ps),
               enviados := enviados c @ map (Pair now) (take k ps),
               pendentes := drop k ps\<rparr>
      \<and> efs = map (\<lambda>(s, ip, n). Tx s ip) (take k ps)
      \<and> (k < length ps \<longrightarrow>
           limite_janela c < of_int (ocupacao c + psum (take k ps) + int (snd (snd (ps ! k)))))"
proof (induction now ps c arbitrary: c' efs rule: admitir.induct)
  case (1 now c)
  then show ?case by auto
next
  case (2 now seg ip tam ps c)
  show ?case
  proof (cases "of_int (ocupacao c + int tam) > limite_janela c")
    case True
    with "2.prems" show ?thesis by (intro exI [of _ 0]) auto
  next
    case False
    let ?c1 = "c\<lparr>ocupacao := ocupacao c + int tam, enviados := enviados c @ [(now, seg, ip, tam)]\<rparr>"
    obtain c2 efs2 where r: "admitir now ps ?c1 = (c2, efs2)" by fastforce
    with False "2.prems" have eq: "c' = c2" "efs = Tx seg ip # efs2" by auto
    from "2.IH" [OF False _ r] obtain k where k: "k \<le> length ps"
      "c2 = ?c1\<lparr>ocupacao := ocupacao ?c1 + psum (take k ps),
               enviados := enviados ?c1 @ map (Pair now) (take k ps),
               pendentes := drop k ps\<rparr>"
      "efs2 = map (\<lambda>(s, ip, n). Tx s ip) (take k ps)"
      "k < length ps \<longrightarrow> limite_janela ?c1 < of_int (ocupacao ?c1 + psum (take k ps) + int (snd (snd (ps ! k))))"
      by auto
    show ?thesis
      using k eq by (intro exI [of _ "Suc k"]) (auto simp: add.assoc)
  qed
qed


section \<open>The invariant\<close>

lemma envs_ok_simps [simp]:
  "envs_ok []" "envs_ok ((t, s, d, n) # es) \<longleftrightarrow> entrada_ok s n \<and> envs_ok es"
  "envs_ok (xs @ ys) \<longleftrightarrow> envs_ok xs \<and> envs_ok ys"
  by (simp_all add: envs_ok_def)

lemma pends_ok_simps [simp]:
  "pends_ok []" "pends_ok ((s, d, n) # ps) \<longleftrightarrow> entrada_ok s n \<and> pends_ok ps"
  "pends_ok (xs @ ys) \<longleftrightarrow> pends_ok xs \<and> pends_ok ys"
  by (simp_all add: pends_ok_def)

lemma envs_ok_stamp [simp]: "envs_ok (map (Pair now) ps) = pends_ok ps"
  by (induction ps) auto

lemma pends_ok_take_drop:
  "pends_ok ps \<Longrightarrow> pends_ok (take k ps)" "pends_ok ps \<Longrightarrow> pends_ok (drop k ps)"
  by (metis append_take_drop_id pends_ok_simps(3))+

lemma pends_ok_nth:
  "pends_ok ps \<Longrightarrow> k < length ps \<Longrightarrow> entrada_ok (fst (ps ! k)) (snd (snd (ps ! k)))"
proof -
  assume a: "pends_ok ps" "k < length ps"
  obtain s d n where e: "ps ! k = (s, d, n)" by (cases "ps ! k") auto
  have "list_all (\<lambda>(s, _, n). entrada_ok s n) ps" using a(1) by (simp add: pends_ok_def)
  then have "(\<lambda>(s, _, n). entrada_ok s n) (ps ! k)" using a(2) by (simp add: list_all_length)
  then show ?thesis using e by simp
qed

lemma conn_invI:
  "ocupacao c = tsum (enviados c) \<Longrightarrow> (enviados c \<noteq> [] \<longleftrightarrow> cronometro c \<noteq> None) \<Longrightarrow>
   0 < limite_janela c \<Longrightarrow> (enviados c = [] \<Longrightarrow> of_nat MSS \<le> limite_janela c) \<Longrightarrow>
   (pendentes c \<noteq> [] \<Longrightarrow> enviados c \<noteq> []) \<Longrightarrow> envs_ok (enviados c) \<Longrightarrow>
   pends_ok (pendentes c) \<Longrightarrow> conn_inv c"
  by (simp add: conn_inv_def)

lemma conn_invD:
  assumes "conn_inv c"
  shows conn_inv_ocupacao: "ocupacao c = tsum (enviados c)"
    and conn_inv_cronometro: "enviados c \<noteq> [] \<longleftrightarrow> cronometro c \<noteq> None"
    and conn_inv_limite: "0 < limite_janela c"
    and conn_inv_vazio: "enviados c = [] \<Longrightarrow> of_nat MSS \<le> limite_janela c"
    and conn_inv_pendentes: "pendentes c \<noteq> [] \<Longrightarrow> enviados c \<noteq> []"
    and conn_inv_envs: "envs_ok (enviados c)"
    and conn_inv_pends: "pends_ok (pendentes c)"
  using assms by (simp_all add: conn_inv_def)

lemma step_frames [simp]:
  "enviados (atualizar_rtt now t c) = enviados c" "pendentes (atualizar_rtt now t c) = pendentes c"
  "ocupacao (atualizar_rtt now t c) = ocupacao c"
  "limite_janela (atualizar_rtt now t c) = limite_janela c"
  "cronometro (atualizar_rtt now t c) = cronometro c" "chave (atualizar_rtt now t c) = chave c"
  "enviados (crescer_janela h c) = enviados c" "pendentes (crescer_janela h c) = pendentes c"
  "ocupacao (crescer_janela h c) = ocupacao c" "cronometro (crescer_janela h c) = cronometro c"
  "enviados (rearmar c) = enviados c" "pendentes (rearmar c) = pendentes c"
  "ocupacao (rearmar c) = ocupacao c" "limite_janela (rearmar c) = limite_janela c"
  by (simp_all add: atualizar_rtt_def crescer_janela_def rearmar_def Let_def)

lemma limite_crescer_janela:
  "limite_janela (crescer_janela h c) =
     limite_janela c + (if h \<and> ocupacao c = 0 then of_nat MSS else 0)"
  by (simp add: crescer_janela_def)

lemma cronometro_rearmar:
  "cronometro (rearmar c) = (if enviados c \<noteq> [] then Some (tempo_limite c) else cronometro c)"
  by (simp add: rearmar_def)

lemma tsum_nonneg: "0 \<le> tsum es"
  by (induction es) auto

lemma tsum_pos: "envs_ok es \<Longrightarrow> es \<noteq> [] \<Longrightarrow> 0 < tsum es"
proof (induction es)
  case (Cons e es)
  obtain t s d n where e: "e = (t, s, d, n)" by (cases e) auto
  with Cons.prems tsum_nonneg [of es] show ?case by (auto simp: entrada_ok_def)
qed simp

lemma tratar_ack_None:
  "drenar ack (enviados c) (ocupacao c) None = (rest, oc, None) \<Longrightarrow>
   tratar_ack now ack c =
     (Some UnboundLocalError, c\<lparr>cronometro := None, enviados := rest, ocupacao := oc\<rparr>, [])"
  by (simp add: tratar_ack_def)

lemma tratar_ack_Some:
  assumes "drenar ack (enviados c) (ocupacao c) None = (rest, oc, Some t)"
    and "c3 = crescer_janela (0 < ocupacao c)
                (atualizar_rtt now t (c\<lparr>cronometro := None, enviados := rest, ocupacao := oc\<rparr>))"
    and "admitir now (pendentes c3) c3 = (c4, efs4)"
  shows "tratar_ack now ack c = (None, rearmar c4, efs4)"
  using assms by (simp add: tratar_ack_def)

lemma conn_inv_tratar_ack:
  assumes inv: "conn_inv c" and r: "tratar_ack now ack c = (ex, c', efs)"
  shows "conn_inv c'"
proof -
  obtain rest oc tm where dr: "drenar ack (enviados c) (ocupacao c) None = (rest, oc, tm)"
    by (cases "drenar ack (enviados c) (ocupacao c) None") auto
  from drenar_split [OF dr] obtain pre where pre: "enviados c = pre @ rest"
    "oc = ocupacao c - tsum pre" "tm = (if pre = [] then None else Some (fst (last pre)))"
    "enviados c \<noteq> [] \<longrightarrow> pre \<noteq> []" by blast
  have oc: "oc = tsum rest" using pre(1,2) conn_inv_ocupacao [OF inv] by simp
  have ok: "envs_ok (enviados c)" "pends_ok (pendentes c)"
    using inv by (simp_all add: conn_inv_envs conn_inv_pends)
  show ?thesis
  proof (cases "pre = []")
    case True
    have e1: "enviados c = []" using pre(4) True by blast
    have e: "enviados c = []" "rest = []" "tm = None"
      using e1 pre(1,3) True by simp_all
    have "tratar_ack now ack c =
            (Some UnboundLocalError, c\<lparr>cronometro := None, enviados := rest, ocupacao := oc\<rparr>, [])"
      using dr e(3) by (simp only: tratar_ack_None)
    then have c': "c' = c\<lparr>cronometro := None, enviados := rest, ocupacao := oc\<rparr>"
      using r by simp
    have "pendentes c = []" using conn_inv_pendentes [OF inv] e by blast
    then show ?thesis using c' oc e conn_inv_vazio [OF inv] conn_inv_limite [OF inv]
      by (intro conn_invI) simp_all
  next
    case False
    define c3 where "c3 = crescer_janela (0 < ocupacao c)
      (atualizar_rtt now (fst (last pre)) (c\<lparr>cronometro := None, enviados := rest, ocupacao := oc\<rparr>))"
    obtain c4 efs4 where ad: "admitir now (pendentes c3) c3 = (c4, efs4)" by fastforce
    have "tm = Some (fst (last pre))" using pre False by simp
    with r dr ad have c': "c' = rearmar c4"
      using tratar_ack_Some [OF _ c3_def] by fastforce
    have occ: "0 < ocupacao c"
      using conn_inv_ocupacao [OF inv] tsum_pos [OF ok(1)] False pre(1) by simp
    have c3: "enviados c3 = rest" "pendentes c3 = pendentes c" "ocupacao c3 = oc"
      "limite_janela c3 = limite_janela c + (if oc = 0 then of_nat MSS else 0)"
      using occ by (simp_all add: c3_def limite_crescer_janela)
    from admitir_shape [OF ad] obtain k where k0: "k \<le> length (pendentes c3)"
      "c4 = c3\<lparr>ocupacao := ocupacao c3 + psum (take k (pendentes c3)),
               enviados := enviados c3 @ map (Pair now) (take k (pendentes c3)),
               pendentes := drop k (pendentes c3)\<rparr>"
      "k < length (pendentes c3) \<longrightarrow> limite_janela c3 <
          of_int (ocupacao c3 + psum (take k (pendentes c3)) + int (snd (snd (pendentes c3 ! k))))"
      by blast
    have k: "k \<le> length (pendentes c)"
      "c4 = c3\<lparr>ocupacao := oc + psum (take k (pendentes c)),
               enviados := rest @ map (Pair now) (take k (pendentes c)),
               pendentes := drop k (pendentes c)\<rparr>"
      "k < length (pendentes c) \<longrightarrow> limite_janela c3 <
          of_int (oc + psum (take k (pendentes c)) + int (snd (snd (pendentes c ! k))))"
      using k0 by (simp_all only: c3(1-3))
    have lim: "0 < limite_janela c" using inv by (rule conn_inv_limite)
    have empty: "of_nat MSS \<le> limite_janela c3" if "rest = []"
      using that c3 oc lim by simp
    have rest_ok: "envs_ok rest" using ok(1) pre(1) by simp
    show ?thesis
    proof (rule conn_invI)
      show "ocupacao c' = tsum (enviados c')" using c' k(2) oc by simp
      show "(enviados c' \<noteq> []) = (cronometro c' \<noteq> None)"
        using c' k(2) by (simp add: cronometro_rearmar c3_def)
      show "0 < limite_janela c'" using c' k(2) c3(4) lim by simp
      show "of_nat MSS \<le> limite_janela c'" if "enviados c' = []"
        using that c' k(2) empty by simp
      show "enviados c' \<noteq> []" if "pendentes c' \<noteq> []"
      proof
        assume none: "enviados c' = []"
        have kl: "k < length (pendentes c)" using that c' k(2) by simp
        then have "rest = []" "k = 0" using none c' k(2) by auto
        moreover have "entrada_ok (fst (pendentes c ! 0)) (snd (snd (pendentes c ! 0)))"
          using pends_ok_nth [OF ok(2)] kl \<open>k = 0\<close> by simp
        ultimately show False using k(3) kl empty oc by (simp add: entrada_ok_def)
      qed
      show "envs_ok (enviados c')"
        using c' k(2) rest_ok pends_ok_take_drop(1) [OF ok(2)] by simp
      show "pends_ok (pendentes c')"
        using c' k(2) pends_ok_take_drop(2) [OF ok(2)] by simp
    qed
  qed
qed

lemma conn_inv_frame:
  "enviados c' = enviados c \<Longrightarrow> pendentes c' = pendentes c \<Longrightarrow> ocupacao c' = ocupacao c \<Longrightarrow>
   limite_janela c' = limite_janela c \<Longrightarrow> cronometro c' = cronometro c \<Longrightarrow>
   conn_inv c' = conn_inv c"
  by (simp add: conn_inv_def)

lemma conn_inv_upd [simp]:
  "conn_inv (c\<lparr>seq_atual := a\<rparr>) = conn_inv c"
  "conn_inv (c\<lparr>seq_esperado := a\<rparr>) = conn_inv c"
  "conn_inv (c\<lparr>ack_retorno := a\<rparr>) = conn_inv c"
  "conn_inv (c\<lparr>ouvinte := b\<rparr>) = conn_inv c"
  by (simp_all add: conn_inv_def)

lemma conn_inv_nodo_conexao: "conn_inv (nodo_conexao k seq ack isn)"
  by (rule conn_invI) (simp_all add: nodo_conexao_def MSS_def)

lemma conn_inv_reenvio:
  assumes inv: "conn_inv c" and armed: "cronometro c \<noteq> None"
  shows "conn_inv (fst (reenvio c))"
proof -
  obtain t s d n rest where e: "enviados c = (t, s, d, n) # rest"
    using conn_inv_cronometro [OF inv] armed by (cases "enviados c") auto
  have r: "fst (reenvio c) = c\<lparr>cronometro := Some (tempo_limite c), limite_janela := limite_janela c / 2,
                                 enviados := (0, s, d, n) # rest\<rparr>"
    using e by (simp add: reenvio_def)
  show ?thesis
    unfolding r using e conn_inv_ocupacao [OF inv] conn_inv_limite [OF inv]
      conn_inv_envs [OF inv] conn_inv_pends [OF inv]
    by (intro conn_invI) simp_all
qed

lemma conn_inv_processar_segmento:
  assumes inv: "conn_inv c"
    and r: "processar_segmento now seq ack fl dados c = (ex, c', efs)"
  shows "conn_inv c'"
proof -
  let ?c2 = "c\<lparr>seq_esperado := seq_esperado c + int (length dados), ack_retorno := ack\<rparr>"
  have inv2: "conn_inv ?c2" using inv by simp
  have ta: "conn_inv c'" if "tratar_ack now ack ?c2 = (ex', c', efs')" for ex' efs'
    using conn_inv_tratar_ack [OF inv2 that] .
  show ?thesis
    using r inv inv2
    by (auto simp: processar_segmento_def Let_def split: if_splits sum.splits prod.splits
             intro: ta)
qed


lemma enviar_parte_err_header:
  "chave c = (src_ip, src_p, dst_ip, dst_p) \<Longrightarrow>
   make_header dst_p src_p (ack_retorno c) (seq_esperado c) FLAGS_ACK = Inl e \<Longrightarrow>
   enviar_parte now ped c = (Some e, c\<lparr>seq_atual := ack_retorno c\<rparr>, [])"
  by (simp add: enviar_parte_def)

lemma enviar_parte_err_checksum:
  "chave c = (src_ip, src_p, dst_ip, dst_p) \<Longrightarrow>
   make_header dst_p src_p (ack_retorno c) (seq_esperado c) FLAGS_ACK = Inr h \<Longrightarrow>
   fix_checksum (h @ ped) dst_ip src_ip = Inl e \<Longrightarrow>
   enviar_parte now ped c =
     (Some e, c\<lparr>seq_atual := ack_retorno c, ack_retorno := ack_retorno c + int (length ped)\<rparr>, [])"
  by (simp add: enviar_parte_def)

text \<open>A chunk that is built: sent at once when it fits the window, queued otherwise.\<close>
lemma enviar_parte_ok:
  assumes "chave c = (src_ip, src_p, dst_ip, dst_p)"
    and "make_header dst_p src_p (ack_retorno c) (seq_esperado c) FLAGS_ACK = Inr h"
    and "fix_checksum (h @ ped) dst_ip src_ip = Inr resp"
  shows "enviar_parte now ped c =
     (if of_int (ocupacao c + int (length ped)) \<le> limite_janela c
      then (None, c\<lparr>seq_atual := ack_retorno c, ack_retorno := ack_retorno c + int (length ped),
                    enviados := enviados c @ [(now, resp, src_ip, length ped)],
                    ocupacao := ocupacao c + int (length ped),
                    cronometro := Some (case cronometro c of None \<Rightarrow> tempo_limite c | Some d \<Rightarrow> d)\<rparr>,
            [Tx resp src_ip])
      else (None, c\<lparr>seq_atual := ack_retorno c, ack_retorno := ack_retorno c + int (length ped),
                    pendentes := pendentes c @ [(resp, src_ip, length ped)]\<rparr>, []))"
  using assms by (cases "cronometro c") (simp_all add: enviar_parte_def Let_def)

lemma conn_inv_enviar_parte:
  assumes inv: "conn_inv c" and ped: "0 < length ped" "length ped \<le> MSS"
    and r: "enviar_parte now ped c = (ex, c', efs)"
  shows "conn_inv c'"
proof -
  obtain src_ip src_p dst_ip dst_p where k: "chave c = (src_ip, src_p, dst_ip, dst_p)"
    by (cases "chave c") auto
  show ?thesis
  proof (cases "make_header dst_p src_p (ack_retorno c) (seq_esperado c) FLAGS_ACK")
    case (Inl e)
    have "c' = c\<lparr>seq_atual := ack_retorno c\<rparr>"
      using r enviar_parte_err_header [OF k Inl, of now ped] by simp
    then show ?thesis using inv by simp
  next
    case (Inr h)
    have lh: "length h = 20" using Inr by (rule make_header_length)
    show ?thesis
    proof (cases "fix_checksum (h @ ped) dst_ip src_ip")
      case (Inl e)
      have "c' = c\<lparr>seq_atual := ack_retorno c, ack_retorno := ack_retorno c + int (length ped)\<rparr>"
        using r enviar_parte_err_checksum [OF k \<open>make_header _ _ _ _ _ = Inr h\<close> Inl, of now] by simp
      then show ?thesis using inv by simp
    next
      case (Inr resp)
      have ok: "entrada_ok resp (length ped)"
        using length_fix_checksum [OF _ Inr] lh ped by (simp add: entrada_ok_def)
      note eq = enviar_parte_ok [OF k \<open>make_header _ _ _ _ _ = Inr h\<close> Inr, of now]
      show ?thesis
      proof (cases "of_int (ocupacao c + int (length ped)) \<le> limite_janela c")
        case True
        then have c': "c' = c\<lparr>seq_atual := ack_retorno c, ack_retorno := ack_retorno c + int (length ped),
                    enviados := enviados c @ [(now, resp, src_ip, length ped)],
                    ocupacao := ocupacao c + int (length ped),
                    cronometro := Some (case cronometro c of None \<Rightarrow> tempo_limite c | Some d \<Rightarrow> d)\<rparr>"
          using r eq by simp
        show ?thesis unfolding c'
          using ok conn_inv_ocupacao [OF inv] conn_inv_limite [OF inv] conn_inv_envs [OF inv]
            conn_inv_pends [OF inv]
          by (intro conn_invI) simp_all
      next
        case False
        then have c': "c' = c\<lparr>seq_atual := ack_retorno c, ack_retorno := ack_retorno c + int (length ped),
                    pendentes := pendentes c @ [(resp, src_ip, length ped)]\<rparr>"
          using r eq by simp
        have busy: "enviados c \<noteq> []"
        proof
          assume "enviados c = []"
          then have "ocupacao c = 0" "of_nat MSS \<le> limite_janela c"
            using conn_inv_ocupacao [OF inv] conn_inv_vazio [OF inv] by simp_all
          then show False using False ped(2) by simp
        qed
        show ?thesis unfolding c'
          using ok busy conn_inv_ocupacao [OF inv] conn_inv_cronometro [OF inv]
            conn_inv_limite [OF inv] conn_inv_envs [OF inv] conn_inv_pends [OF inv]
          by (intro conn_invI) simp_all
      qed
    qed
  qed
qed

lemma pedaco_length:
  assumes "i < partes dados"
  shows "0 < length (pedaco dados i) \<and> length (pedaco dados i) \<le> MSS"
proof -
  have "\<not> (length dados + MSS - 1) div MSS < Suc i" using assms by (simp add: partes_def)
  then have "Suc i * MSS \<le> length dados + MSS - 1"
    using div_less_iff_less_mult [of MSS "length dados + MSS - 1" "Suc i"] by (simp add: MSS_def)
  then have "i * MSS < length dados" by (simp add: MSS_def)
  then show ?thesis by (auto simp: pedaco_def slice_def MSS_def)
qed

lemma conn_inv_enviar_loop:
  "conn_inv c \<Longrightarrow> \<forall>i \<in> set ixs. i < partes dados \<Longrightarrow>
   enviar_loop now dados ixs c = (ex, c', efs) \<Longrightarrow> conn_inv c'"
proof (induction ixs arbitrary: c ex c' efs)
  case Nil
  then show ?case by simp
next
  case (Cons i ixs)
  obtain ex1 c1 efs1 where p: "enviar_parte now (pedaco dados i) c = (ex1, c1, efs1)"
    by (cases "enviar_parte now (pedaco dados i) c") auto
  have inv1: "conn_inv c1"
    using conn_inv_enviar_parte [OF Cons.prems(1) _ _ p] pedaco_length [of i dados] Cons.prems(2)
    by simp
  show ?case
  proof (cases ex1)
    case None
    obtain ex2 c2 efs2 where l: "enviar_loop now dados ixs c1 = (ex2, c2, efs2)"
      by (cases "enviar_loop now dados ixs c1") auto
    then have "c' = c2" using Cons.prems(3) p None by simp
    then show ?thesis using Cons.IH [OF inv1 _ l] Cons.prems(2) by simp
  next
    case (Some e)
    then show ?thesis using Cons.prems(3) p inv1 by simp
  qed
qed

lemma conn_inv_enviar:
  "conn_inv c \<Longrightarrow> enviar now dados c = (ex, c', efs) \<Longrightarrow> conn_inv c'"
  unfolding enviar_def by (erule conn_inv_enviar_loop) auto

lemma conn_inv_fechar:
  "conn_inv c \<Longrightarrow> fechar c = (ex, c', efs) \<Longrightarrow> conn_inv c'"
  by (auto simp: fechar_def Let_def split: sum.splits)

lemma conn_inv_passo [preserves]:
  assumes "conn_inv c" "habilitado c ev" "passo c ev = (ex, c', efs)"
  shows "conn_inv c'"
proof (cases ev)
  case (Segmento now seq ack fl dados)
  then show ?thesis using assms conn_inv_processar_segmento by simp
next
  case (Enviar now dados)
  then show ?thesis using assms conn_inv_enviar by simp
next
  case Fechar
  then show ?thesis using assms conn_inv_fechar by simp
next
  case Disparo
  then have "c' = fst (reenvio c)" "cronometro c \<noteq> None"
    using assms(2,3) by (auto split: prod.splits)
  then show ?thesis using conn_inv_reenvio [OF assms(1)] by simp
next
  case Registro
  then show ?thesis using assms by (auto simp: registrar_recebedor_def)
qed

lemma alcancavel_inv: "alcancavel c \<Longrightarrow> conn_inv c"
proof (induction rule: alcancavel.induct)
  case (inicio k seq ack isn)
  then show ?case by (rule conn_inv_nodo_conexao)
next
  case (passo c ev ex c' efs)
  then show ?case using conn_inv_passo by blast
qed

lemma alcancavel_executar: "alcancavel c \<Longrightarrow> alcancavel (executar c evs)"
proof (induction evs arbitrary: c)
  case Nil
  then show ?case by simp
next
  case (Cons ev evs)
  have "alcancavel (if habilitado c ev then fst (snd (passo c ev)) else c)"
  proof (cases "habilitado c ev")
    case True
    have "passo c ev = (fst (passo c ev), fst (snd (passo c ev)), snd (snd (passo c ev)))" by simp
    then have "alcancavel (fst (snd (passo c ev)))" by (rule alcancavel.passo [OF Cons.prems True])
    then show ?thesis using True by simp
  qed (use Cons.prems in simp)
  then show ?case using Cons.IH by simp
qed

lemma alcancavel_teste: "alcancavel (executar c_inicial eventos_teste)"
  unfolding c_inicial_def by (intro alcancavel_executar alcancavel.inicio)

text \<open>The state the run \<open>eventos_teste\<close> ends in, computed by the kernel.\<close>
lemma execucao_teste:
  "pendentes (executar c_inicial eventos_teste) \<noteq> []
   \<and> limite_janela (executar c_inicial eventos_teste) = 1460 / 16
   \<and> ocupacao (executar c_inicial eventos_teste) = 100"
  by (simp add: eventos_teste_def c_inicial_def nodo_conexao_def k_teste_def processar_segmento_def
      FLAGS_FIN_def FLAGS_ACK_def entregar_def tratar_ack_def enviar_def partes_def MSS_def pedaco_def
      slice_def enviar_parte_def make_header_def fix_checksum_def tcp_calc_checksum_def Let_def
      reenvio_def split: list.splits)

lemma drenar_ate_casamento:
  assumes "\<forall>e \<in> set pre. seg_seq (fst (snd e)) \<noteq> ack" "seg_seq (fst (snd x)) = ack"
  shows "drenar ack (pre @ x # post) oc t = (post, oc - tsum (pre @ [x]), Some (fst x))"
  using assms
proof (induction pre arbitrary: oc t)
  case Nil
  obtain tm s d n where "x = (tm, s, d, n)" by (cases x) auto
  with Nil show ?case by simp
next
  case (Cons e pre)
  obtain tm s d n where "e = (tm, s, d, n)" by (cases e) auto
  with Cons show ?case by (simp add: algebra_simps)
qed



lemma concat_chunks:
  "concat (map (\<lambda>i. take m (drop (i * m) xs)) [0..<n]) = take (n * m) xs"
proof (induction n)
  case 0
  then show ?case by simp
next
  case (Suc n)
  have "Suc n * m = n * m + m" by simp
  then have "take (Suc n * m) xs = take (n * m) xs @ take m (drop (n * m) xs)"
    by (simp only: take_add)
  then show ?case using Suc.IH by simp
qed

lemma pedaco_take: "i < partes dados \<Longrightarrow> pedaco dados i = take MSS (drop (i * MSS) dados)"
  by (simp add: pedaco_def slice_def min_def algebra_simps)

lemma seg_teste_seq [simp]: "0 \<le> sq \<Longrightarrow> sq < 2 ^ 32 \<Longrightarrow> seg_seq (seg_teste sq) = sq"
  by (simp add: seg_seq_def seg_teste_def)

lemma conn_inv_c_teste: "conn_inv c_teste"
  by (simp add: conn_inv_def c_teste_def c_inicial_def nodo_conexao_def seg_teste_def
      entrada_ok_def envs_ok_def pends_ok_def MSS_def)

lemma enviados_c_teste:
  "enviados c_teste = (1, seg_teste 5000, 1, 1) # (1, seg_teste 5001, 1, 1) # []"
  by (simp add: c_teste_def)


text \<open>A header made by \<open>make_header\<close>, followed by a payload and given its
  checksum by \<open>fix_checksum\<close>, is a well-formed segment.\<close>
lemma segmento_ok_fix_checksum:
  assumes h: "make_header sp dp sq ak fl = Inr h" and r: "fix_checksum (h @ dados) s d = Inr r"
  shows "segmento_ok r s d sp dp sq ak fl dados"
proof -
  have l: "length (h @ dados) \<ge> 20" using make_header_length [OF h] by simp
  obtain x where rh: "read_header r = Inr (\<lparr>src_port = sp, dst_port = dp, seq_no = sq, ack_no = ak,
                hdr_flags = push_bit 12 5 OR fl, window_size = 8 * int MSS,
                checksum = 0, urg_ptr = 0\<rparr>\<lparr>checksum := x\<rparr>)"
    using read_header_fix_checksum [OF l r read_make_header [OF h]] by blast
  have fr: "drop 18 r = drop 18 (h @ dados)" using fix_checksum_frame [OF _ r] l by simp
  have "drop 20 r = drop 2 (drop 18 r)" by simp
  also have "\<dots> = drop 2 (drop 18 (h @ dados))" by (simp only: fr)
  also have "\<dots> = dados" using make_header_length [OF h] by simp
  finally have "drop 20 r = dados" .
  moreover have "tcp_calc_checksum r s d = Inr 0" using fix_checksum_valid [OF _ r] l by simp
  ultimately show ?thesis using rh by (simp add: segmento_ok_def)
qed

lemma montar_segmento_ok:
  "montar_segmento (si, sp, di, dp) sq ak fl dados = Inr r \<Longrightarrow>
   segmento_ok r di si dp sp sq ak fl dados"
  by (auto simp: montar_segmento_def intro: segmento_ok_fix_checksum split: sum.splits)

lemma montar_segmento_Inl:
  "\<not> (0 \<le> ak \<and> ak < 2 ^ 32) \<Longrightarrow> montar_segmento k sq ak fl dados = Inl StructError"
proof -
  assume a: "\<not> (0 \<le> ak \<and> ak < 2 ^ 32)"
  obtain si sp di dp where k: "k = (si, sp, di, dp)" by (cases k) auto
  have "\<not> (\<exists>h. make_header dp sp sq ak fl = Inr h)" using a by (auto simp: make_header_Inr_iff)
  then obtain e where "make_header dp sp sq ak fl = Inl e" by (cases "make_header dp sp sq ak fl") auto
  then show ?thesis using make_header_Inl [of dp sp sq ak fl e] by (simp add: montar_segmento_def k)
qed
section \<open>Properties\<close>

text \<open>
  C1. Every reachable connection state satisfies \<open>conn_inv\<close>: the occupancy
  counts exactly the bytes in flight, a timer is armed exactly while data is in
  flight, the window is positive (and one segment wide when nothing is in
  flight), queued data implies data in flight, and every queued segment is a
  20-byte header plus 1 to MSS bytes; exceptions raised by a handler included.
\<close>
theorem alcancavel_conn_inv: "alcancavel c \<Longrightarrow> conn_inv c"
  by (rule alcancavel_inv)

theorem alcancavel_conn_inv_witness:
  "alcancavel (executar c_inicial eventos_teste) \<and> conn_inv (executar c_inicial eventos_teste)
   \<and> pendentes (executar c_inicial eventos_teste) \<noteq> []"
  using alcancavel_teste alcancavel_conn_inv [OF alcancavel_teste] execucao_teste by simp



text \<open>
  C4. The drain loop stops only after popping the entry whose sequence number
  equals the ACK number. That segment starts at the first byte the peer has not
  acknowledged, yet it leaves the in-flight queue with the acknowledged ones,
  and its bytes leave the occupancy: after a partial ACK, the first
  unacknowledged segment is never retransmitted.
\<close>
theorem tratar_ack_retira_nao_confirmado:
  assumes inv: "conn_inv c" and e: "enviados c = e1 # e2 # rest"
    and n1: "seg_seq (fst (snd e1)) \<noteq> ack" and n2: "seg_seq (fst (snd e2)) = ack"
    and r: "tratar_ack now ack c = (ex, c', efs)"
  shows "ex = None \<and> (\<exists>k. enviados c' = rest @ map (Pair now) (take k (pendentes c)))"
proof -
  have dr: "drenar ack (enviados c) (ocupacao c) None =
              (rest, ocupacao c - tsum [e1, e2], Some (fst e2))"
    using drenar_ate_casamento [of "[e1]" ack e2 rest "ocupacao c" None] n1 n2 e by simp
  define c3 where "c3 = crescer_janela (0 < ocupacao c)
      (atualizar_rtt now (fst e2) (c\<lparr>cronometro := None, enviados := rest,
                                     ocupacao := ocupacao c - tsum [e1, e2]\<rparr>))"
  obtain c4 efs4 where ad: "admitir now (pendentes c3) c3 = (c4, efs4)" by fastforce
  have eq: "tratar_ack now ack c = (None, rearmar c4, efs4)"
    by (rule tratar_ack_Some [OF dr c3_def ad])
  obtain k where "c4 = c3\<lparr>ocupacao := ocupacao c3 + psum (take k (pendentes c3)),
               enviados := enviados c3 @ map (Pair now) (take k (pendentes c3)),
               pendentes := drop k (pendentes c3)\<rparr>"
    using admitir_shape [OF ad] by blast
  then show ?thesis using r eq by (auto simp: c3_def)
qed

theorem tratar_ack_retira_nao_confirmado_witness:
  "conn_inv c_teste \<and> seg_seq (seg_teste 5000) \<noteq> 5001 \<and> seg_seq (seg_teste 5001) = 5001
   \<and> fst (tratar_ack 3 5001 c_teste) = None
   \<and> enviados (fst (snd (tratar_ack 3 5001 c_teste))) = []"
proof -
  have r: "tratar_ack 3 5001 c_teste = (fst (tratar_ack 3 5001 c_teste),
             fst (snd (tratar_ack 3 5001 c_teste)), snd (snd (tratar_ack 3 5001 c_teste)))"
    by simp
  have n: "seg_seq (fst (snd (1::rat, seg_teste 5000, 1::addr, 1::nat))) \<noteq> 5001"
    "seg_seq (fst (snd (1::rat, seg_teste 5001, 1::addr, 1::nat))) = 5001" by simp_all
  have "fst (tratar_ack 3 5001 c_teste) = None \<and>
        (\<exists>k. enviados (fst (snd (tratar_ack 3 5001 c_teste))) =
               [] @ map (Pair 3) (take k (pendentes c_teste)))"
    by (rule tratar_ack_retira_nao_confirmado [OF conn_inv_c_teste enviados_c_teste n r])
  moreover have "pendentes c_teste = []" by (simp add: c_teste_def c_inicial_def nodo_conexao_def)
  ultimately show ?thesis using conn_inv_c_teste by simp
qed

text \<open>
  C9. A pure ACK (no FIN, in order, no payload) that reaches a connection
  with nothing in flight raises \<open>UnboundLocalError\<close>: the drain loop never
  runs, so its variable \<open>tempo\<close> is unbound when the RTT code reads it. The
  handler has already stored the acknowledgment number and cancelled the timer.
\<close>
theorem processar_ack_sem_dados_em_voo:
  assumes "fl AND FLAGS_FIN = 0" "fl AND FLAGS_ACK \<noteq> 0" "enviados c = []"
  shows "processar_segmento now (seq_esperado c) ack fl [] c =
           (Some UnboundLocalError, c\<lparr>ack_retorno := ack, cronometro := None\<rparr>, entregar c [])"
proof -
  have "tratar_ack now ack (c\<lparr>ack_retorno := ack\<rparr>) =
          (Some UnboundLocalError, c\<lparr>ack_retorno := ack, cronometro := None\<rparr>, [])"
    using assms(3) tratar_ack_None [of ack "c\<lparr>ack_retorno := ack\<rparr>" "[]" "ocupacao c" now] by simp
  then show ?thesis using assms by (simp add: processar_segmento_def entregar_def)
qed

theorem processar_ack_sem_dados_em_voo_witness:
  "(0x5010::int) AND FLAGS_FIN = 0 \<and> (0x5010::int) AND FLAGS_ACK \<noteq> 0 \<and> enviados c_inicial = []
   \<and> fst (processar_segmento 5 101 5001 0x5010 [] c_inicial) = Some UnboundLocalError"
proof -
  have f: "(0x5010::int) AND FLAGS_FIN = 0" "(0x5010::int) AND FLAGS_ACK \<noteq> 0"
    by (simp_all add: FLAGS_FIN_def FLAGS_ACK_def)
  have e: "enviados c_inicial = []" "seq_esperado c_inicial = 101"
    by (simp_all add: c_inicial_def nodo_conexao_def)
  show ?thesis
    using processar_ack_sem_dados_em_voo [OF f e(1), of 5 5001] f e by simp
qed

text \<open>
  C13. The first RTT sample (a retired entry with a non-zero timestamp) seeds
  the estimator with the measured time, the deviation with half of it, and
  sets the timeout to three times the sample.
\<close>
theorem atualizar_rtt_primeira_amostra:
  assumes "tempo \<noteq> 0" "\<not> primeiro_rtt c"
  shows "rtt_estimado (atualizar_rtt now tempo c) = now - tempo
       \<and> rtt_variacao (atualizar_rtt now tempo c) = (now - tempo) / 2
       \<and> tempo_limite (atualizar_rtt now tempo c) = 3 * (now - tempo)
       \<and> primeiro_rtt (atualizar_rtt now tempo c)"
  using assms by (simp add: atualizar_rtt_def Let_def)

theorem atualizar_rtt_primeira_amostra_witness:
  "(3::rat) \<noteq> 0 \<and> \<not> primeiro_rtt c_inicial \<and> tempo_limite (atualizar_rtt 5 3 c_inicial) = 6"
proof -
  have p: "\<not> primeiro_rtt c_inicial" by (simp add: c_inicial_def nodo_conexao_def)
  show ?thesis using atualizar_rtt_primeira_amostra [of 3 c_inicial 5] p by simp
qed

text \<open>
  C14. A later RTT sample follows Jacobson's estimator with the code's
  constants: \<open>est = 0.875 est + 0.125 d\<close>, \<open>var = 0.75 var + 0.25 |d - est|\<close>
  (the new estimate), timeout \<open>est + 4 var\<close>.
\<close>
theorem atualizar_rtt_amostra_seguinte:
  fixes now tempo :: rat
  assumes "tempo \<noteq> 0" "primeiro_rtt c"
  defines "d \<equiv> now - tempo"
  defines "est \<equiv> 0.875 * rtt_estimado c + 0.125 * d"
  shows "rtt_estimado (atualizar_rtt now tempo c) = est
       \<and> rtt_variacao (atualizar_rtt now tempo c) = 0.75 * rtt_variacao c + 0.25 * \<bar>d - est\<bar>
       \<and> tempo_limite (atualizar_rtt now tempo c) =
            est + 4 * (0.75 * rtt_variacao c + 0.25 * \<bar>d - est\<bar>)"
  using assms(2) unfolding atualizar_rtt_def Let_def d_def est_def using assms(1) by simp

theorem atualizar_rtt_amostra_seguinte_witness:
  "(1::rat) \<noteq> 0 \<and> primeiro_rtt (c_inicial\<lparr>primeiro_rtt := True\<rparr>)
   \<and> rtt_estimado (atualizar_rtt 9 1 (c_inicial\<lparr>primeiro_rtt := True\<rparr>)) = 1.875
   \<and> tempo_limite (atualizar_rtt 9 1 (c_inicial\<lparr>primeiro_rtt := True\<rparr>)) = 1.875 + 4 * (0.375 + 0.25 * (8 - 1.875))"
proof -
  have v: "rtt_estimado (c_inicial\<lparr>primeiro_rtt := True\<rparr>) = 1"
    "rtt_variacao (c_inicial\<lparr>primeiro_rtt := True\<rparr>) = 1 / 2"
    by (simp_all add: c_inicial_def nodo_conexao_def)
  show ?thesis
    using atualizar_rtt_amostra_seguinte [of 1 "c_inicial\<lparr>primeiro_rtt := True\<rparr>" 9] v by simp
qed

text \<open>
  C10. A timeout halves the window, retransmits the oldest in-flight segment,
  zeroes its timestamp (Karn: it gives no RTT sample) and re-arms the timer.
\<close>
theorem reenvio_cabeca:
  assumes "enviados c = (t, s, d, n) # rest"
  shows "reenvio c =
           (c\<lparr>cronometro := Some (tempo_limite c), limite_janela := limite_janela c / 2,
               enviados := (0, s, d, n) # rest\<rparr>, [Tx s d])"
  using assms by (simp add: reenvio_def)

theorem reenvio_cabeca_witness:
  "enviados c_teste = (1, seg_teste 5000, 1, 1) # [(1, seg_teste 5001, 1, 1)]
   \<and> snd (reenvio c_teste) = [Tx (seg_teste 5000) 1]
   \<and> limite_janela (fst (reenvio c_teste)) = 730"
proof -
  have l: "limite_janela c_teste = 1460"
    by (simp add: c_teste_def c_inicial_def nodo_conexao_def MSS_def)
  show ?thesis using reenvio_cabeca [OF enviados_c_teste] enviados_c_teste l by simp
qed

text \<open>
  C15. Additive increase: on an acknowledgment the window grows by exactly
  one MSS when data was in flight and the drain loop emptied the in-flight
  queue, and is unchanged otherwise (also when the handler raises).
\<close>
theorem tratar_ack_limite:
  assumes inv: "conn_inv c" and r: "tratar_ack now ack c = (ex, c', efs)"
  shows "limite_janela c' = limite_janela c +
           (if enviados c \<noteq> [] \<and> fst (drenar ack (enviados c) (ocupacao c) None) = []
            then of_nat MSS else 0)"
proof -
  obtain rest oc tm where dr: "drenar ack (enviados c) (ocupacao c) None = (rest, oc, tm)"
    by (cases "drenar ack (enviados c) (ocupacao c) None") auto
  from drenar_split [OF dr] obtain pre where pre: "enviados c = pre @ rest"
    "oc = ocupacao c - tsum pre" "tm = (if pre = [] then None else Some (fst (last pre)))"
    "enviados c \<noteq> [] \<longrightarrow> pre \<noteq> []" by blast
  show ?thesis
  proof (cases "enviados c = []")
    case True
    then have "tm = None" using pre(1,3) by simp
    then show ?thesis using r dr True tratar_ack_None [of ack c rest oc now] by auto
  next
    case False
    then obtain t where t: "tm = Some t" using pre(3,4) by simp
    have oc: "oc = tsum rest" using pre(1,2) conn_inv_ocupacao [OF inv] by simp
    have "envs_ok rest" using conn_inv_envs [OF inv] pre(1) by simp
    then have "rest \<noteq> [] \<Longrightarrow> 0 < oc" using oc tsum_pos by simp
    then have z: "oc = 0 \<longleftrightarrow> rest = []" using oc by (cases "rest = []") auto
    have pos: "0 < ocupacao c" using conn_inv_ocupacao [OF inv] tsum_pos [OF conn_inv_envs [OF inv] False] by simp
    define c3 where "c3 = crescer_janela (0 < ocupacao c)
      (atualizar_rtt now t (c\<lparr>cronometro := None, enviados := rest, ocupacao := oc\<rparr>))"
    obtain c4 efs4 where ad: "admitir now (pendentes c3) c3 = (c4, efs4)" by fastforce
    have "c' = rearmar c4" using r tratar_ack_Some [OF dr [unfolded t] c3_def ad] by simp
    moreover obtain k where "c4 = c3\<lparr>ocupacao := ocupacao c3 + psum (take k (pendentes c3)),
               enviados := enviados c3 @ map (Pair now) (take k (pendentes c3)),
               pendentes := drop k (pendentes c3)\<rparr>"
      using admitir_shape [OF ad] by blast
    ultimately show ?thesis using False z pos dr by (simp add: c3_def limite_crescer_janela)
  qed
qed

theorem tratar_ack_limite_witness:
  "conn_inv c_teste
   \<and> limite_janela (fst (snd (tratar_ack 3 5001 c_teste))) = limite_janela c_teste + of_nat MSS
   \<and> limite_janela (fst (snd (tratar_ack 3 5000 c_teste))) = limite_janela c_teste"
proof -
  have r: "tratar_ack 3 a c_teste = (fst (tratar_ack 3 a c_teste),
             fst (snd (tratar_ack 3 a c_teste)), snd (snd (tratar_ack 3 a c_teste)))" for a
    by simp
  have d: "fst (drenar 5001 (enviados c_teste) (ocupacao c_teste) None) = []"
    "fst (drenar 5000 (enviados c_teste) (ocupacao c_teste) None) \<noteq> []"
    by (simp_all add: enviados_c_teste)
  show ?thesis
    using tratar_ack_limite [OF conn_inv_c_teste r [of 5001]]
      tratar_ack_limite [OF conn_inv_c_teste r [of 5000]] conn_inv_c_teste d
    by (simp add: enviados_c_teste)
qed

text \<open>
  C12. A segment without FIN whose sequence number is not the expected one
  is ignored: no state change, no delivery, no acknowledgment sent.
\<close>
theorem processar_fora_de_ordem:
  "fl AND FLAGS_FIN = 0 \<Longrightarrow> seq \<noteq> seq_esperado c \<Longrightarrow>
   processar_segmento now seq ack fl dados c = (None, c, [])"
  by (simp add: processar_segmento_def)

theorem processar_fora_de_ordem_witness:
  "(0x5010::int) AND FLAGS_FIN = 0 \<and> 7 \<noteq> seq_esperado c_inicial
   \<and> processar_segmento 5 7 5001 0x5010 [1] c_inicial = (None, c_inicial, [])"
proof -
  have f: "(0x5010::int) AND FLAGS_FIN = 0" by (simp add: FLAGS_FIN_def)
  have s: "7 \<noteq> seq_esperado c_inicial" by (simp add: c_inicial_def nodo_conexao_def)
  show ?thesis using processar_fora_de_ordem [OF f s, of 5 5001 "[1]"] f s by simp
qed

text \<open>
  C16. \<open>enviar\<close> cuts the data into \<open>ceil(len/MSS)\<close> chunks that concatenate
  back to the data, each non-empty and at most one MSS long.
\<close>
theorem enviar_segmentacao:
  "concat (map (pedaco dados) [0..<partes dados]) = dados
   \<and> (\<forall>i < partes dados. 0 < length (pedaco dados i) \<and> length (pedaco dados i) \<le> MSS)"
proof -
  have m: "map (pedaco dados) [0..<partes dados] =
          map (\<lambda>i. take MSS (drop (i * MSS) dados)) [0..<partes dados]"
    by (simp add: pedaco_take)
  have l: "length dados \<le> partes dados * MSS"
    by (simp add: partes_def MSS_def)
  have "concat (map (pedaco dados) [0..<partes dados]) = dados"
    unfolding m concat_chunks using l by simp
  moreover have "\<forall>i < partes dados. 0 < length (pedaco dados i) \<and> length (pedaco dados i) \<le> MSS"
    using pedaco_length by blast
  ultimately show ?thesis by blast
qed

theorem enviar_segmentacao_witness:
  "partes (replicate 2000 1) = 2
   \<and> concat [pedaco (replicate 2000 1) 0, pedaco (replicate 2000 1) 1] = replicate 2000 1
   \<and> length (pedaco (replicate 2000 1) 1) = 540"
proof -
  have p: "partes (replicate 2000 (1::byte)) = 2" by (simp add: partes_def MSS_def)
  have "length (pedaco (replicate 2000 (1::byte)) 1) = 540"
    by (simp add: pedaco_def slice_def MSS_def)
  then show ?thesis using enviar_segmentacao [of "replicate 2000 1"] p by (simp add: upt_rec)
qed

text \<open>
  C11. Each chunk \<open>enviar\<close> builds and does not fail on is a well-formed
  segment: its header carries the ports swapped from the key, sequence
  number \<open>ack_retorno\<close>, acknowledgment number \<open>seq_esperado\<close> and flag ACK,
  the chunk follows the header, the checksum verifies; the chunk is either
  transmitted at once and put in flight, or queued; \<open>ack_retorno\<close> advances
  by the chunk's length.
\<close>
theorem enviar_parte_segmento:
  assumes k: "chave c = (si, sp, di, dp)" and r: "enviar_parte now ped c = (None, c', efs)"
  shows "seq_atual c' = ack_retorno c \<and> ack_retorno c' = ack_retorno c + int (length ped)
       \<and> (\<exists>s. segmento_ok s di si dp sp (ack_retorno c) (seq_esperado c) FLAGS_ACK ped
              \<and> (efs = [Tx s si] \<and> enviados c' = enviados c @ [(now, s, si, length ped)]
                 \<or> efs = [] \<and> pendentes c' = pendentes c @ [(s, si, length ped)]))"
proof -
  obtain h where h: "make_header dp sp (ack_retorno c) (seq_esperado c) FLAGS_ACK = Inr h"
    using r k by (cases "make_header dp sp (ack_retorno c) (seq_esperado c) FLAGS_ACK")
                 (auto simp: enviar_parte_err_header)
  obtain s where s: "fix_checksum (h @ ped) di si = Inr s"
    using r k h by (cases "fix_checksum (h @ ped) di si") (auto simp: enviar_parte_err_checksum)
  have ok: "segmento_ok s di si dp sp (ack_retorno c) (seq_esperado c) FLAGS_ACK ped"
    by (rule segmento_ok_fix_checksum [OF h s])
  show ?thesis
    using r ok enviar_parte_ok [OF k h s, of now] by (auto split: if_splits)
qed

theorem enviar_parte_segmento_witness:
  "chave c_inicial = (1, 1000, 2, 80)
   \<and> enviar_parte 7 [65] c_inicial =
       (None, fst (snd (enviar_parte 7 [65] c_inicial)), snd (snd (enviar_parte 7 [65] c_inicial)))
   \<and> ack_retorno (fst (snd (enviar_parte 7 [65] c_inicial))) = 1"
proof -
  have k: "chave c_inicial = (1, 1000, 2, 80)" by (simp add: c_inicial_def nodo_conexao_def k_teste_def)
  have n: "fst (enviar_parte 7 [65] c_inicial) = None"
    by (simp add: c_inicial_def nodo_conexao_def k_teste_def enviar_parte_def make_header_def
        fix_checksum_def tcp_calc_checksum_def FLAGS_ACK_def MSS_def Let_def)
  have r: "enviar_parte 7 [65] c_inicial =
       (None, fst (snd (enviar_parte 7 [65] c_inicial)), snd (snd (enviar_parte 7 [65] c_inicial)))"
    using n by (metis prod.collapse)
  have "ack_retorno c_inicial = 0" by (simp add: c_inicial_def nodo_conexao_def)
  then show ?thesis using enviar_parte_segmento [OF k r] k r by simp
qed

text \<open>
  C20. A segment with FIN is answered whatever its sequence number: the
  handler delivers end-of-stream to the listener, stores the acknowledgment
  number and sends one segment acknowledging \<open>seq_esperado + 1\<close> that echoes
  the received flags (FIN included); \<open>seq_esperado\<close> and \<open>seq_atual\<close> are
  not advanced.
\<close>
theorem processar_fin:
  assumes fin: "fl AND FLAGS_FIN \<noteq> 0" and k: "chave c = (si, sp, di, dp)"
    and r: "processar_segmento now seq ack fl dados c = (None, c', efs)"
  shows "c' = c\<lparr>ack_retorno := ack\<rparr>
       \<and> (\<exists>s. efs = entregar c [] @ [Tx s si]
              \<and> segmento_ok s di si dp sp (seq_atual c) (seq_esperado c + 1) fl [])"
proof -
  obtain s where s: "montar_segmento (si, sp, di, dp) (seq_atual c) (seq_esperado c + 1) fl [] = Inr s"
    and e: "c' = c\<lparr>ack_retorno := ack\<rparr>" "efs = entregar c [] @ [Tx s si]"
    using r fin k by (auto simp: processar_segmento_def Let_def entregar_def split: sum.splits)
  show ?thesis using montar_segmento_ok [OF s] e by blast
qed

theorem processar_fin_witness:
  "(0x11::int) AND FLAGS_FIN \<noteq> 0 \<and> chave c_inicial = (1, 1000, 2, 80)
   \<and> fst (processar_segmento 5 42 5001 0x11 [] c_inicial) = None
   \<and> fst (snd (processar_segmento 5 42 5001 0x11 [] c_inicial)) = c_inicial\<lparr>ack_retorno := 5001\<rparr>"
proof -
  have f: "(0x11::int) AND FLAGS_FIN \<noteq> 0" by (simp add: FLAGS_FIN_def)
  have k: "chave c_inicial = (1, 1000, 2, 80)" by (simp add: c_inicial_def nodo_conexao_def k_teste_def)
  have n: "fst (processar_segmento 5 42 5001 0x11 [] c_inicial) = None"
    by (simp add: c_inicial_def nodo_conexao_def k_teste_def processar_segmento_def FLAGS_FIN_def
        montar_segmento_def make_header_def fix_checksum_def tcp_calc_checksum_def MSS_def Let_def
        entregar_def)
  have r: "processar_segmento 5 42 5001 0x11 [] c_inicial =
       (None, fst (snd (processar_segmento 5 42 5001 0x11 [] c_inicial)),
        snd (snd (processar_segmento 5 42 5001 0x11 [] c_inicial)))"
    using n by (metis prod.collapse)
  show ?thesis using processar_fin [OF f k r] f k n by simp
qed

text \<open>
  C21. Sequence numbers are not reduced modulo 2^32: an in-order segment
  with data that carries \<open>seq_esperado\<close> to 2^32 or beyond makes the
  acknowledgment's \<open>struct.pack\<close> fail with \<open>struct.error\<close>, after the
  handler has advanced \<open>seq_esperado\<close> and delivered the data, and before
  it processes the ACK.
\<close>
theorem processar_estouro_seq:
  assumes "fl AND FLAGS_FIN = 0" "fl AND FLAGS_ACK \<noteq> 0" "dados \<noteq> []"
    and "2 ^ 32 \<le> seq_esperado c + int (length dados)"
  shows "processar_segmento now (seq_esperado c) ack fl dados c =
           (Some StructError,
            c\<lparr>seq_esperado := seq_esperado c + int (length dados), ack_retorno := ack\<rparr>,
            entregar c dados)"
proof -
  have "montar_segmento (chave c) (seq_atual c) (seq_esperado c + int (length dados)) fl [] =
          Inl StructError"
    using assms(4) by (intro montar_segmento_Inl) simp
  then show ?thesis using assms(1-3) by (simp add: processar_segmento_def Let_def entregar_def)
qed

theorem processar_estouro_seq_witness:
  "(0x5010::int) AND FLAGS_FIN = 0 \<and> (0x5010::int) AND FLAGS_ACK \<noteq> 0 \<and> [1::byte] \<noteq> []
   \<and> 2 ^ 32 \<le> seq_esperado (c_inicial\<lparr>seq_esperado := 2 ^ 32 - 1\<rparr>) + int (length [1::byte])
   \<and> fst (processar_segmento 5 (2 ^ 32 - 1) 5001 0x5010 [1] (c_inicial\<lparr>seq_esperado := 2 ^ 32 - 1\<rparr>))
       = Some StructError"
proof -
  have f: "(0x5010::int) AND FLAGS_FIN = 0" "(0x5010::int) AND FLAGS_ACK \<noteq> 0"
    by (simp_all add: FLAGS_FIN_def FLAGS_ACK_def)
  have o: "2 ^ 32 \<le> seq_esperado (c_inicial\<lparr>seq_esperado := 2 ^ 32 - 1\<rparr>) + int (length [1::byte])"
    by simp
  show ?thesis using processar_estouro_seq [OF f _ o, of 5 5001] f o by simp
qed

end
