(* ===== verification/Server.thy ===== *)
theory Server
  imports Connection
begin

unbundle bit_operations_syntax

text \<open>
  The TCP server, class \<open>NucleoServidor\<close> of \<open>src/tcp.py\<close> (lines 8--45).
  Its connection table \<open>self.estados\<close> is a map from the 4-tuple key to the
  connection record of theory \<open>Connection\<close>; \<open>gatilho_conexao\<close> records
  whether an accept callback is registered. The handler \<open>_ouvir_segmento\<close>
  returns the exception it raises, the new server state, and its effects in
  order: segments it transmits itself (the SYN+ACK), calls of the accept
  callback, and the effects of the connection it dispatches to, tagged with
  the connection's key. Events of a whole server (a segment arriving, an
  application call or a timer on one connection) form the datatype
  \<open>evento_srv\<close>; \<open>alcancavel_srv\<close> is the set of reachable server states.
\<close>

section \<open>State and effects\<close>

record servidor =
  porta_escuta :: int
  estados :: "chave \<Rightarrow> conexao option"
  gatilho_conexao :: bool
  ignora_checksum :: bool

datatype efeito_srv =
    Envio bytes addr
  | Aceite chave
  | DaConexao chave efeito

type_synonym resultado_srv = "pyexc option \<times> servidor \<times> efeito_srv list"

section \<open>Operations\<close>

text \<open>\<open>NucleoServidor.__init__(enlace, porta_escuta)\<close>; \<open>ign\<close> is
  \<open>enlace.ignore_checksum\<close>. The registration of \<open>_ouvir_segmento\<close> with
  the IP layer is modelled where the two are composed.\<close>
definition nucleo_servidor :: "int \<Rightarrow> bool \<Rightarrow> servidor" where
  "nucleo_servidor porta ign =
     \<lparr>porta_escuta = porta, estados = Map.empty, gatilho_conexao = False, ignora_checksum = ign\<rparr>"

definition registrar_monitor :: "servidor \<Rightarrow> servidor" where
  "registrar_monitor st = st\<lparr>gatilho_conexao := True\<rparr>"

text \<open>
  The SYN branch (lines 32--41): the connection is created and stored first,
  then the SYN+ACK is built and sent, then the accept callback runs.
  \<open>isn\<close> is the \<open>random.randint\<close> drawn inside \<open>NodoConexao.__init__\<close>,
  \<open>novo_seq\<close> the one drawn on line 34.
\<close>
definition aceitar_syn ::
  "int \<Rightarrow> int \<Rightarrow> chave \<Rightarrow> int \<Rightarrow> int \<Rightarrow> servidor \<Rightarrow> resultado_srv" where
  "aceitar_syn isn novo_seq k seq ack st =
     (case k of (origem, src_porta, destino, dst_porta) \<Rightarrow>
        (let conexao = nodo_conexao k seq ack isn;
             st1 = st\<lparr>estados := (estados st)(k \<mapsto> conexao)\<rparr>;
             ack_para_envio = seq + 1
         in case make_header dst_porta src_porta novo_seq ack_para_envio (FLAGS_SYN OR FLAGS_ACK) of
              Inl e \<Rightarrow> (Some e, st1, [])
            | Inr cabecalho \<Rightarrow>
                (case fix_checksum cabecalho destino origem of
                   Inl e \<Rightarrow> (Some e, st1, [])
                 | Inr resposta \<Rightarrow>
                     (None, st1, Envio resposta origem #
                                 (if gatilho_conexao st then [Aceite k] else [])))))"

text \<open>Dispatch to an existing connection (line 43); the connection keeps its
  mutations when its handler raises.\<close>
definition despachar :: "rat \<Rightarrow> chave \<Rightarrow> conexao \<Rightarrow> int \<Rightarrow> int \<Rightarrow> int \<Rightarrow> bytes \<Rightarrow> servidor \<Rightarrow> resultado_srv" where
  "despachar now k c seq ack flags dados st =
     (let (ex, c', efs) = processar_segmento now seq ack flags dados c
      in (ex, st\<lparr>estados := (estados st)(k \<mapsto> c')\<rparr>, map (DaConexao k) efs))"

text \<open>\<open>_ouvir_segmento(origem, destino, pacote)\<close>, lines 19--45.\<close>
definition ouvir_segmento ::
  "rat \<Rightarrow> int \<Rightarrow> int \<Rightarrow> addr \<Rightarrow> addr \<Rightarrow> bytes \<Rightarrow> servidor \<Rightarrow> resultado_srv" where
  "ouvir_segmento now isn novo_seq origem destino pacote st =
     (case read_header pacote of
        Inl e \<Rightarrow> (Some e, st, [])
      | Inr h \<Rightarrow>
          (if dst_port h \<noteq> porta_escuta st then (None, st, [])
           else
             (case (if ignora_checksum st then Inr 0 else tcp_calc_checksum pacote origem destino) of
                Inl e \<Rightarrow> (Some e, st, [])
              | Inr chk \<Rightarrow>
                  (if chk \<noteq> 0 then (None, st, [])
                   else
                     (let dados = drop (4 * nat (drop_bit 12 (hdr_flags h))) pacote;
                          k = (origem, src_port h, destino, dst_port h)
                      in if hdr_flags h AND FLAGS_SYN = FLAGS_SYN
                         then aceitar_syn isn novo_seq k (seq_no h) (ack_no h) st
                         else (case estados st k of
                                 Some c \<Rightarrow> despachar now k c (seq_no h) (ack_no h) (hdr_flags h) dados st
                               | None \<Rightarrow> (None, st, [])))))))"

section \<open>Events and reachable states\<close>

datatype evento_srv =
    Chegada rat int int addr addr bytes
  | NaConexao chave evento
  | Monitor

fun passo_srv :: "servidor \<Rightarrow> evento_srv \<Rightarrow> resultado_srv" where
  "passo_srv st (Chegada now isn novo_seq origem destino pacote) =
     ouvir_segmento now isn novo_seq origem destino pacote st"
| "passo_srv st (NaConexao k ev) =
     (case estados st k of
        None \<Rightarrow> (None, st, [])
      | Some c \<Rightarrow> (let (ex, c', efs) = passo c ev
                   in (ex, st\<lparr>estados := (estados st)(k \<mapsto> c')\<rparr>, map (DaConexao k) efs)))"
| "passo_srv st Monitor = (None, registrar_monitor st, [])"

text \<open>Application calls and timers act on connections in the table only;
  a timer fires only while armed.\<close>
fun habilitado_srv :: "servidor \<Rightarrow> evento_srv \<Rightarrow> bool" where
  "habilitado_srv st (NaConexao k ev) = (case estados st k of None \<Rightarrow> False | Some c \<Rightarrow> habilitado c ev)"
| "habilitado_srv st _ = True"

inductive alcancavel_srv :: "servidor \<Rightarrow> bool" where
  inicio: "alcancavel_srv (nucleo_servidor porta ign)"
| passo: "alcancavel_srv st \<Longrightarrow> habilitado_srv st ev \<Longrightarrow> passo_srv st ev = (ex, st', efs) \<Longrightarrow>
          alcancavel_srv st'"

definition tabela_ok :: "servidor \<Rightarrow> bool" where
  "tabela_ok st \<longleftrightarrow> (\<forall>k c. estados st k = Some c \<longrightarrow> conn_inv c)"

text \<open>A SYN from 0.0.0.1:1000 to port 80 with sequence number 100.\<close>
definition syn_teste :: bytes where
  "syn_teste = be 2 1000 @ be 2 80 @ be 4 100 @ be 4 0 @ be 2 0x5002 @ be 2 0 @ be 2 0 @ be 2 0"

definition srv_teste :: servidor where
  "srv_teste = nucleo_servidor 80 True"

section \<open>Lemmas\<close>

lemma read_header_Inr_length: "read_header seg = Inr h \<Longrightarrow> 20 \<le> length seg"
  by (auto simp: read_header_def unpack_def split: if_splits)

lemma read_header_ports:
  assumes "read_header seg = Inr h"
  shows "0 \<le> src_port h \<and> src_port h < 2 ^ 16 \<and> 0 \<le> dst_port h \<and> dst_port h < 2 ^ 16
       \<and> 0 \<le> seq_no h"
proof -
  have l: "20 \<le> length seg" by (rule read_header_Inr_length [OF assms])
  have h: "h = \<lparr>src_port = unbe (take 2 seg), dst_port = unbe (take 2 (drop 2 seg)),
     seq_no = unbe (take 4 (drop 4 seg)), ack_no = unbe (take 4 (drop 8 seg)),
     hdr_flags = unbe (take 2 (drop 12 seg)), window_size = unbe (take 2 (drop 14 seg)),
     checksum = unbe (take 2 (drop 16 seg)), urg_ptr = unbe (take 2 (drop 18 seg))\<rparr>"
    using read_header_eq [OF l] assms by simp
  have "unbe (take 2 seg) < 2 ^ (8 * 2)" "unbe (take 2 (drop 2 seg)) < 2 ^ (8 * 2)"
    using unbe_bound [of "take 2 seg"] unbe_bound [of "take 2 (drop 2 seg)"] l by simp_all
  then show ?thesis using h by simp
qed

lemma estados_aceitar_syn:
  "estados (fst (snd (aceitar_syn isn novo_seq k seq ack st))) = (estados st)(k \<mapsto> nodo_conexao k seq ack isn)"
  by (auto simp: aceitar_syn_def Let_def split: prod.splits sum.splits)

lemma tabela_okI: "(\<And>k c. estados st k = Some c \<Longrightarrow> conn_inv c) \<Longrightarrow> tabela_ok st"
  by (simp add: tabela_ok_def)

lemma tabela_okD: "tabela_ok st \<Longrightarrow> estados st k = Some c \<Longrightarrow> conn_inv c"
  unfolding tabela_ok_def by blast

lemma tabela_ok_upd:
  "tabela_ok st \<Longrightarrow> conn_inv c \<Longrightarrow> tabela_ok (st\<lparr>estados := (estados st)(k \<mapsto> c)\<rparr>)"
  by (auto simp: tabela_ok_def)

lemma tabela_ok_aceitar_syn [preserves]:
  "tabela_ok st \<Longrightarrow> aceitar_syn isn novo_seq k seq ack st = (ex, st', efs) \<Longrightarrow> tabela_ok st'"
  using estados_aceitar_syn [of isn novo_seq k seq ack st] conn_inv_nodo_conexao [of k seq ack isn]
  by (auto simp: tabela_ok_def)

lemma tabela_ok_despachar [preserves]:
  assumes "tabela_ok st" "estados st k = Some c" "despachar now k c seq ack fl dados st = (ex, st', efs)"
  shows "tabela_ok st'"
proof -
  obtain ex1 c' efs1 where p: "processar_segmento now seq ack fl dados c = (ex1, c', efs1)"
    by (cases "processar_segmento now seq ack fl dados c") auto
  have "conn_inv c'" using conn_inv_processar_segmento [OF tabela_okD [OF assms(1,2)] p] .
  moreover have "st' = st\<lparr>estados := (estados st)(k \<mapsto> c')\<rparr>" using assms(3) p by (simp add: despachar_def)
  ultimately show ?thesis using tabela_ok_upd [OF assms(1)] by simp
qed

lemma tabela_ok_ouvir [preserves]:
  assumes "tabela_ok st" "ouvir_segmento now isn nseq orig dst pacote st = (ex, st', efs)"
  shows "tabela_ok st'"
  using assms
  by (auto simp: ouvir_segmento_def Let_def split: sum.splits if_splits option.splits
           intro: tabela_ok_aceitar_syn tabela_ok_despachar)

lemma tabela_ok_passo_srv [preserves]:
  assumes "tabela_ok st" "habilitado_srv st ev" "passo_srv st ev = (ex, st', efs)"
  shows "tabela_ok st'"
proof (cases ev)
  case (Chegada now isn nseq orig dst pacote)
  then show ?thesis using assms tabela_ok_ouvir by simp
next
  case (NaConexao k e)
  then obtain c where c: "estados st k = Some c" "habilitado c e" using assms(2) by (auto split: option.splits)
  obtain ex1 c' efs1 where p: "passo c e = (ex1, c', efs1)" by (cases "passo c e") auto
  have "conn_inv c'" using conn_inv_passo [OF tabela_okD [OF assms(1) c(1)] c(2) p] .
  moreover have "st' = st\<lparr>estados := (estados st)(k \<mapsto> c')\<rparr>" using assms(3) NaConexao c p by simp
  ultimately show ?thesis using tabela_ok_upd [OF assms(1)] by simp
next
  case Monitor
  then show ?thesis using assms by (auto simp: registrar_monitor_def tabela_ok_def)
qed

lemma alcancavel_srv_tabela_ok: "alcancavel_srv st \<Longrightarrow> tabela_ok st"
proof (induction rule: alcancavel_srv.induct)
  case (inicio porta ign)
  then show ?case by (simp add: tabela_ok_def nucleo_servidor_def)
next
  case (passo st ev ex st' efs)
  then show ?case using tabela_ok_passo_srv by blast
qed

lemma read_syn_teste:
  "read_header syn_teste = Inr \<lparr>src_port = 1000, dst_port = 80, seq_no = 100, ack_no = 0,
     hdr_flags = 0x5002, window_size = 0, checksum = 0, urg_ptr = 0\<rparr>"
  by (simp add: read_header_eq syn_teste_def)

lemma ouvir_syn_teste:
  "ouvir_segmento now isn nseq 1 2 syn_teste srv_teste = aceitar_syn isn nseq (1, 1000, 2, 80) 100 0 srv_teste"
  by (simp add: ouvir_segmento_def read_syn_teste srv_teste_def nucleo_servidor_def FLAGS_SYN_def)

section \<open>Properties\<close>

text \<open>
  C2. In every reachable server state, every connection in the table
  satisfies the connection invariant: the server creates connections only
  through \<open>NodoConexao.__init__\<close> and changes them only through their
  handlers, whatever order segments, application calls and timers come in.
\<close>
theorem alcancavel_srv_conn_inv:
  "alcancavel_srv st \<Longrightarrow> estados st k = Some c \<Longrightarrow> conn_inv c"
  using tabela_okD alcancavel_srv_tabela_ok by blast

theorem alcancavel_srv_conn_inv_witness:
  "alcancavel_srv (fst (snd (passo_srv srv_teste (Chegada 0 5000 7000 1 2 syn_teste))))
   \<and> estados (fst (snd (passo_srv srv_teste (Chegada 0 5000 7000 1 2 syn_teste)))) (1, 1000, 2, 80)
       = Some (nodo_conexao (1, 1000, 2, 80) 100 0 5000)
   \<and> conn_inv (nodo_conexao (1, 1000, 2, 80) 100 0 5000)"
proof -
  let ?ev = "Chegada 0 5000 7000 1 2 syn_teste"
  have a0: "alcancavel_srv srv_teste" unfolding srv_teste_def by (rule alcancavel_srv.inicio)
  have "passo_srv srv_teste ?ev = (fst (passo_srv srv_teste ?ev), fst (snd (passo_srv srv_teste ?ev)),
          snd (snd (passo_srv srv_teste ?ev)))" by simp
  then have a: "alcancavel_srv (fst (snd (passo_srv srv_teste ?ev)))"
    by (rule alcancavel_srv.passo [OF a0, rotated]) simp
  have e: "estados (fst (snd (passo_srv srv_teste ?ev))) (1, 1000, 2, 80) = Some (nodo_conexao (1, 1000, 2, 80) 100 0 5000)"
    by (simp add: ouvir_syn_teste estados_aceitar_syn)
  show ?thesis using a e alcancavel_srv_conn_inv [OF a e] by simp
qed

text \<open>
  C6. A SYN for the listening port that passes the checksum test creates
  the connection for its 4-tuple (expected sequence = client sequence + 1)
  and is answered by exactly one SYN+ACK to the client, acknowledging the
  client's sequence number plus one from sequence number \<open>novo_seq\<close>,
  with a valid checksum; then the accept callback runs, if registered.
\<close>
theorem ouvir_syn:
  assumes r: "read_header pacote = Inr h" and p: "dst_port h = porta_escuta st"
    and chk: "ignora_checksum st \<or> tcp_calc_checksum pacote origem destino = Inr 0"
    and syn: "hdr_flags h AND FLAGS_SYN = FLAGS_SYN" and sq: "seq_no h + 1 < 2 ^ 32"
    and ns: "0 \<le> novo_seq" "novo_seq < 2 ^ 32"
  defines "k \<equiv> (origem, src_port h, destino, dst_port h)"
  shows "\<exists>s. ouvir_segmento now isn novo_seq origem destino pacote st =
              (None, st\<lparr>estados := (estados st)(k \<mapsto> nodo_conexao k (seq_no h) (ack_no h) isn)\<rparr>,
               Envio s origem # (if gatilho_conexao st then [Aceite k] else []))
           \<and> segmento_ok s destino origem (dst_port h) (src_port h) novo_seq (seq_no h + 1)
                (FLAGS_SYN OR FLAGS_ACK) []
           \<and> seq_esperado (nodo_conexao k (seq_no h) (ack_no h) isn) = seq_no h + 1"
proof -
  note b = read_header_ports [OF r]
  obtain hd where hd: "make_header (dst_port h) (src_port h) novo_seq (seq_no h + 1) (FLAGS_SYN OR FLAGS_ACK) = Inr hd"
    using b sq ns make_header_Inr_iff [of "dst_port h" "src_port h" novo_seq "seq_no h + 1" "FLAGS_SYN OR FLAGS_ACK"]
    by (auto simp: FLAGS_SYN_def FLAGS_ACK_def)
  have lh: "length hd = 20" using make_header_length [OF hd] .
  obtain s where s: "fix_checksum (hd @ []) destino origem = Inr s"
    using fix_checksum_Inr_iff [of "hd @ []" destino origem] lh by auto
  have ok: "segmento_ok s destino origem (dst_port h) (src_port h) novo_seq (seq_no h + 1) (FLAGS_SYN OR FLAGS_ACK) []"
    by (rule segmento_ok_fix_checksum [OF hd s])
  have "aceitar_syn isn novo_seq k (seq_no h) (ack_no h) st =
          (None, st\<lparr>estados := (estados st)(k \<mapsto> nodo_conexao k (seq_no h) (ack_no h) isn)\<rparr>,
           Envio s origem # (if gatilho_conexao st then [Aceite k] else []))"
    using hd s by (simp add: aceitar_syn_def k_def Let_def)
  moreover have "ouvir_segmento now isn novo_seq origem destino pacote st =
                   aceitar_syn isn novo_seq k (seq_no h) (ack_no h) st"
    using r p chk syn by (auto simp: ouvir_segmento_def k_def Let_def)
  ultimately show ?thesis using ok by (simp add: nodo_conexao_def)
qed

theorem ouvir_syn_witness:
  "read_header syn_teste = Inr \<lparr>src_port = 1000, dst_port = 80, seq_no = 100, ack_no = 0,
     hdr_flags = 0x5002, window_size = 0, checksum = 0, urg_ptr = 0\<rparr>
   \<and> ignora_checksum srv_teste \<and> porta_escuta srv_teste = 80
   \<and> (\<exists>s. ouvir_segmento 0 5000 7000 1 2 syn_teste srv_teste =
          (None, srv_teste\<lparr>estados := [(1, 1000, 2, 80) \<mapsto> nodo_conexao (1, 1000, 2, 80) 100 0 5000]\<rparr>, [Envio s 1])
        \<and> segmento_ok s 2 1 80 1000 7000 101 (FLAGS_SYN OR FLAGS_ACK) [])"
proof -
  have i: "ignora_checksum srv_teste" "porta_escuta srv_teste = 80" "\<not> gatilho_conexao srv_teste"
    "estados srv_teste = Map.empty"
    by (simp_all add: srv_teste_def nucleo_servidor_def)
  have f: "(0x5002::int) AND FLAGS_SYN = FLAGS_SYN" by (simp add: FLAGS_SYN_def)
  show ?thesis
    using ouvir_syn [OF read_syn_teste, of srv_teste 1 2 7000 0 5000] read_syn_teste i f by (simp, blast)
qed

text \<open>
  C18. A segment for another port, or one whose checksum does not verify
  while checksums are checked, is dropped: no state change, no effect.
\<close>
theorem ouvir_descarta:
  assumes "read_header pacote = Inr h"
    and "dst_port h \<noteq> porta_escuta st
         \<or> \<not> ignora_checksum st \<and> tcp_calc_checksum pacote origem destino = Inr c \<and> c \<noteq> 0"
  shows "ouvir_segmento now isn nseq origem destino pacote st = (None, st, [])"
  using assms by (auto simp: ouvir_segmento_def)

theorem ouvir_descarta_witness:
  "read_header syn_teste = Inr \<lparr>src_port = 1000, dst_port = 80, seq_no = 100, ack_no = 0,
     hdr_flags = 0x5002, window_size = 0, checksum = 0, urg_ptr = 0\<rparr>
   \<and> 80 \<noteq> porta_escuta (nucleo_servidor 81 True)
   \<and> ouvir_segmento 0 5000 7000 1 2 syn_teste (nucleo_servidor 81 True) = (None, nucleo_servidor 81 True, [])"
proof -
  have "80 \<noteq> porta_escuta (nucleo_servidor 81 True)" by (simp add: nucleo_servidor_def)
  then show ?thesis
    using ouvir_descarta [OF read_syn_teste, of "nucleo_servidor 81 True" 1 2 0 0 5000 7000] read_syn_teste
    by simp
qed

end
