(* ===== verification/Routing.thy ===== *)
theory Routing
  imports Prelude
begin

unbundle bit_operations_syntax

text \<open>
  Next-hop selection of the IP layer, \<open>CamadaRede._descobrir_proximo_salto\<close>
  (\<open>src/slip.py\<close>, lines 53--63): a linear scan of the forwarding table that
  keeps the last matching entry whose prefix length is at least the best one
  seen so far. A table entry is the CIDR string the code parses twice, with
  \<open>ip_network\<close> (strict: host bits must be zero) and with
  \<open>int(rede.split('/')[1])\<close>; it is modelled as an address with an optional
  \<open>/p\<close> suffix, so that both parse errors of the code are visible. The
  theorems show that on a well-formed table the scan returns exactly the
  hop of the last entry among the matching ones of maximal prefix length,
  and \<open>None\<close> when no entry matches.
\<close>

section \<open>Forwarding table\<close>

text \<open>A CIDR string \<open>a.b.c.d\<close> or \<open>a.b.c.d/p\<close>.\<close>
datatype rede = Rede addr "nat option"

type_synonym rota = "rede \<times> addr"

text \<open>The netmask with the top \<open>p\<close> bits set.\<close>
definition mascara :: "nat \<Rightarrow> addr" where
  "mascara p = NOT (mask (32 - p))"

text \<open>
  \<open>ip_network(rede)\<close>: a string without \<open>/\<close> is a /32 network; a prefix
  above 32 or an address with host bits set raises \<open>ValueError\<close>.
\<close>
definition rede_ip :: "rede \<Rightarrow> pyexc + addr \<times> nat" where
  "rede_ip r =
     (case r of Rede a po \<Rightarrow>
        (let p = (case po of None \<Rightarrow> 32 | Some p \<Rightarrow> p) in
         if 32 < p \<or> a AND NOT (mascara p) \<noteq> 0 then Inl ValueError else Inr (a, p)))"

text \<open>\<open>int(rede.split('/')[1])\<close>: \<open>IndexError\<close> when the string has no \<open>/\<close>.\<close>
definition prefixo :: "rede \<Rightarrow> pyexc + nat" where
  "prefixo r = (case r of Rede a None \<Rightarrow> Inl IndexError | Rede a (Some p) \<Rightarrow> Inr p)"

text \<open>\<open>ip_destino in rede_convertida\<close>.\<close>
definition contem :: "addr \<Rightarrow> addr \<times> nat \<Rightarrow> bool" where
  "contem ip net = (ip AND mascara (snd net) = fst net)"

text \<open>The loop of lines 57--62, with the loop variables \<open>prox\<close> and \<open>maior_match\<close>.\<close>
fun descobrir_loop :: "addr \<Rightarrow> rota list \<Rightarrow> addr option \<Rightarrow> nat \<Rightarrow> pyexc + addr option" where
  "descobrir_loop ip [] prox mm = Inr prox"
| "descobrir_loop ip ((r, salto) # rs) prox mm =
     (case rede_ip r of
        Inl e \<Rightarrow> Inl e
      | Inr net \<Rightarrow>
          (case prefixo r of
             Inl e \<Rightarrow> Inl e
           | Inr p \<Rightarrow>
               (if contem ip net \<and> mm \<le> p then descobrir_loop ip rs (Some salto) p
                else descobrir_loop ip rs prox mm)))"

definition descobrir_proximo_salto :: "rota list \<Rightarrow> addr \<Rightarrow> pyexc + addr option" where
  "descobrir_proximo_salto rotas destino = descobrir_loop destino rotas None 0"

section \<open>Specification\<close>

text \<open>A well-formed entry: written with a prefix length of at most 32 and no
  host bits set, so that both parses succeed.\<close>
fun rota_ok :: "rota \<Rightarrow> bool" where
  "rota_ok (Rede a (Some p), s) = (p \<le> 32 \<and> a AND NOT (mascara p) = 0)"
| "rota_ok (Rede a None, s) = False"

fun pref :: "rota \<Rightarrow> nat" where
  "pref (Rede a po, s) = (case po of None \<Rightarrow> 32 | Some p \<Rightarrow> p)"

fun casa :: "addr \<Rightarrow> rota \<Rightarrow> bool" where
  "casa ip (Rede a po, s) = (ip AND mascara (case po of None \<Rightarrow> 32 | Some p \<Rightarrow> p) = a)"

text \<open>
  Entry \<open>i\<close> is the one longest-prefix match must choose: it matches, no
  matching entry has a longer prefix, and every later matching entry has a
  shorter one (among entries tied on length the last wins, spec section 3).
\<close>
definition melhor_rota :: "rota list \<Rightarrow> addr \<Rightarrow> nat \<Rightarrow> bool" where
  "melhor_rota rotas ip i \<longleftrightarrow> i < length rotas \<and> casa ip (rotas ! i)
     \<and> list_all (\<lambda>j. casa ip (rotas ! j) \<longrightarrow> pref (rotas ! j) \<le> pref (rotas ! i)
                      \<and> (i < j \<longrightarrow> pref (rotas ! j) < pref (rotas ! i))) [0..<length rotas]"

text \<open>One iteration of the scan on a well-formed entry, on the pair
  (\<open>prox\<close>, \<open>maior_match\<close>).\<close>
definition passo_rota :: "addr \<Rightarrow> addr option \<times> nat \<Rightarrow> rota \<Rightarrow> addr option \<times> nat" where
  "passo_rota ip st x = (if casa ip x \<and> snd st \<le> pref x then (Some (snd x), pref x) else st)"

text \<open>A table with overlapping prefixes and two entries tied on /16.\<close>
definition rotas_teste :: "rota list" where
  "rotas_teste = [(Rede 0 (Some 0), 1), (Rede 0x0a000000 (Some 8), 2), (Rede 0x0a010000 (Some 16), 3),
                  (Rede 0x0b000000 (Some 8), 5), (Rede 0x0a010000 (Some 16), 4)]"

section \<open>Lemmas\<close>

lemma melhor_rota_iff:
  "melhor_rota rotas ip i \<longleftrightarrow> i < length rotas \<and> casa ip (rotas ! i)
     \<and> (\<forall>j < length rotas. casa ip (rotas ! j) \<longrightarrow> pref (rotas ! j) \<le> pref (rotas ! i)
                            \<and> (i < j \<longrightarrow> pref (rotas ! j) < pref (rotas ! i)))"
  by (auto simp: melhor_rota_def list_all_iff)

lemma rota_ok_parse:
  assumes "rota_ok (r, s)"
  shows "\<exists>a p. r = Rede a (Some p) \<and> rede_ip r = Inr (a, p) \<and> prefixo r = Inr p
           \<and> pref (r, s) = p \<and> (\<forall>ip. contem ip (a, p) = casa ip (r, s))"
proof (cases r)
  case (Rede a po)
  then obtain p where "po = Some p" using assms by (cases po) auto
  then show ?thesis using assms Rede by (simp add: rede_ip_def prefixo_def contem_def)
qed

lemma descobrir_loop_foldl:
  "list_all rota_ok rs \<Longrightarrow> descobrir_loop ip rs prox mm = Inr (fst (foldl (passo_rota ip) (prox, mm) rs))"
proof (induction rs arbitrary: prox mm)
  case Nil
  then show ?case by simp
next
  case (Cons x rs)
  obtain r s where x: "x = (r, s)" by (cases x) auto
  have "rota_ok (r, s)" using Cons.prems x by simp
  then obtain a p where "r = Rede a (Some p)" "rede_ip r = Inr (a, p)" "prefixo r = Inr p"
    "pref (r, s) = p" "\<forall>ip. contem ip (a, p) = casa ip (r, s)"
    using rota_ok_parse by blast
  then show ?case using Cons x by (simp add: passo_rota_def)
qed

text \<open>The scan over well-formed entries raises nothing: scanning \<open>pre @ rs\<close>
  is scanning \<open>rs\<close> from the loop state that \<open>pre\<close> leaves.\<close>
lemma descobrir_loop_append:
  "list_all rota_ok pre \<Longrightarrow>
   \<exists>prox' mm'. descobrir_loop ip (pre @ rs) prox mm = descobrir_loop ip rs prox' mm'"
proof (induction pre arbitrary: prox mm)
  case Nil
  then show ?case by auto
next
  case (Cons x pre)
  obtain r s where x: "x = (r, s)" by (cases x) auto
  have "rota_ok (r, s)" using Cons.prems x by simp
  then obtain a p where "rede_ip r = Inr (a, p)" "prefixo r = Inr p"
    using rota_ok_parse by blast
  then show ?case using Cons x by simp
qed

lemma melhor_rota_unica:
  "melhor_rota rs ip i \<Longrightarrow> melhor_rota rs ip i' \<Longrightarrow> i = i'"
  unfolding melhor_rota_iff by (metis le_antisym less_irrefl nat_neq_iff)

lemma nth_snoc_cases:
  "j < Suc (length xs) \<Longrightarrow> (j < length xs \<and> (xs @ [x]) ! j = xs ! j) \<or> (j = length xs \<and> (xs @ [x]) ! j = x)"
  by (auto simp: nth_append less_Suc_eq)

text \<open>The loop invariant: after a prefix of the table, \<open>(prox, maior_match)\<close>
  is \<open>(None, 0)\<close> if nothing matched so far, and otherwise the hop and the
  prefix length of the best entry of the prefix.\<close>
lemma foldl_passo_rota:
  "foldl (passo_rota ip) (None, 0) xs = (None, 0) \<and> (\<forall>j < length xs. \<not> casa ip (xs ! j))
   \<or> (\<exists>i. melhor_rota xs ip i \<and> foldl (passo_rota ip) (None, 0) xs = (Some (snd (xs ! i)), pref (xs ! i)))"
proof (induction xs rule: rev_induct)
  case Nil
  then show ?case by simp
next
  case (snoc x xs)
  let ?st = "foldl (passo_rota ip) (None, 0) xs"
  let ?n = "length xs"
  have nth: "(xs @ [x]) ! j = xs ! j" if "j < ?n" for j using that by (simp add: nth_append)
  have last: "(xs @ [x]) ! ?n = x" by simp
  show ?case
  proof (cases "casa ip x \<and> snd ?st \<le> pref x")
    case True
    have st': "foldl (passo_rota ip) (None, 0) (xs @ [x]) = (Some (snd x), pref x)"
      using True by (simp add: passo_rota_def)
    have le: "pref (xs ! j) \<le> pref x" if "j < ?n" "casa ip (xs ! j)" for j
      using snoc.IH that True unfolding melhor_rota_iff by auto
    have "melhor_rota (xs @ [x]) ip ?n"
      unfolding melhor_rota_iff using True le nth
      by (auto simp: less_Suc_eq)
    then show ?thesis using st' by auto
  next
    case False
    have st': "foldl (passo_rota ip) (None, 0) (xs @ [x]) = ?st"
      using False by (auto simp: passo_rota_def)
    show ?thesis
    proof (cases "casa ip x")
      case cx: True
      then have lt: "pref x < snd ?st" using False by simp
      then obtain i where i: "melhor_rota xs ip i" "?st = (Some (snd (xs ! i)), pref (xs ! i))"
        using snoc.IH by auto
      have "melhor_rota (xs @ [x]) ip i"
        using i lt nth unfolding melhor_rota_iff by (auto simp: less_Suc_eq)
      moreover have "(xs @ [x]) ! i = xs ! i"
        using i(1) nth unfolding melhor_rota_iff by blast
      ultimately show ?thesis using st' i(2) by auto
    next
      case ncx: False
      have "\<forall>j < length (xs @ [x]). \<not> casa ip ((xs @ [x]) ! j)"
        if "\<forall>j < ?n. \<not> casa ip (xs ! j)" using that ncx nth by (auto simp: less_Suc_eq)
      moreover have "melhor_rota (xs @ [x]) ip i" if "melhor_rota xs ip i" for i
        using that ncx nth unfolding melhor_rota_iff by (auto simp: less_Suc_eq)
      ultimately show ?thesis using st' snoc.IH melhor_rota_iff nth by (metis nth_append_length)
    qed
  qed
qed

section \<open>Properties\<close>

text \<open>
  C5. On a well-formed table the scan returns \<open>Some s\<close> exactly when
  \<open>s\<close> is the hop of the longest-prefix entry that matches the destination,
  the last one among entries tied on length.
\<close>
theorem descobrir_lpm:
  assumes "list_all rota_ok rotas"
  shows "descobrir_proximo_salto rotas ip = Inr (Some s) \<longleftrightarrow>
           (\<exists>i. melhor_rota rotas ip i \<and> snd (rotas ! i) = s)"
proof -
  have d: "descobrir_proximo_salto rotas ip = Inr (fst (foldl (passo_rota ip) (None, 0) rotas))"
    using descobrir_loop_foldl [OF assms] by (simp add: descobrir_proximo_salto_def)
  from foldl_passo_rota [of ip rotas] show ?thesis
  proof
    assume "foldl (passo_rota ip) (None, 0) rotas = (None, 0) \<and> (\<forall>j < length rotas. \<not> casa ip (rotas ! j))"
    then show ?thesis using d unfolding melhor_rota_iff by auto
  next
    assume "\<exists>i. melhor_rota rotas ip i \<and> foldl (passo_rota ip) (None, 0) rotas = (Some (snd (rotas ! i)), pref (rotas ! i))"
    then obtain i where "melhor_rota rotas ip i" "foldl (passo_rota ip) (None, 0) rotas = (Some (snd (rotas ! i)), pref (rotas ! i))"
      by blast
    then show ?thesis using d melhor_rota_unica by auto
  qed
qed

theorem descobrir_lpm_witness:
  "list_all rota_ok rotas_teste \<and> melhor_rota rotas_teste 0x0a010203 4
   \<and> descobrir_proximo_salto rotas_teste 0x0a010203 = Inr (Some 4)"
proof -
  have ok: "list_all rota_ok rotas_teste"
    by (simp add: rotas_teste_def mascara_def mask_eq_exp_minus_1)
  have m: "melhor_rota rotas_teste 0x0a010203 4"
    by (simp add: rotas_teste_def mascara_def mask_eq_exp_minus_1 melhor_rota_def upt_rec)
  have "snd (rotas_teste ! 4) = 4" by (simp add: rotas_teste_def)
  then show ?thesis using descobrir_lpm [of rotas_teste "0x0a010203" 4] ok m by blast
qed

text \<open>
  C19. On a well-formed table the scan returns \<open>None\<close> exactly when
  no entry matches; the caller then hands the datagram to the link with
  next hop \<open>None\<close>, where the spec asks for a reported no-route error.
\<close>
theorem descobrir_sem_rota:
  assumes "list_all rota_ok rotas"
  shows "descobrir_proximo_salto rotas ip = Inr None \<longleftrightarrow> \<not> list_ex (casa ip) rotas"
proof -
  have d: "descobrir_proximo_salto rotas ip = Inr (fst (foldl (passo_rota ip) (None, 0) rotas))"
    using descobrir_loop_foldl [OF assms] by (simp add: descobrir_proximo_salto_def)
  have ex: "list_ex (casa ip) rotas \<longleftrightarrow> (\<exists>j < length rotas. casa ip (rotas ! j))"
    by (simp add: list_ex_length)
  from foldl_passo_rota [of ip rotas] show ?thesis
  proof
    assume "foldl (passo_rota ip) (None, 0) rotas = (None, 0) \<and> (\<forall>j < length rotas. \<not> casa ip (rotas ! j))"
    then show ?thesis using d ex by auto
  next
    assume "\<exists>i. melhor_rota rotas ip i \<and> foldl (passo_rota ip) (None, 0) rotas = (Some (snd (rotas ! i)), pref (rotas ! i))"
    then show ?thesis using d ex unfolding melhor_rota_iff by auto
  qed
qed

theorem descobrir_sem_rota_witness:
  "list_all rota_ok (take 4 (tl rotas_teste)) \<and> \<not> list_ex (casa 0x0c000001) (take 4 (tl rotas_teste))
   \<and> descobrir_proximo_salto (take 4 (tl rotas_teste)) 0x0c000001 = Inr None"
proof -
  have ok: "list_all rota_ok (take 4 (tl rotas_teste))"
    by (simp add: rotas_teste_def mascara_def mask_eq_exp_minus_1)
  have n: "\<not> list_ex (casa 0x0c000001) (take 4 (tl rotas_teste))"
    by (simp add: rotas_teste_def mascara_def mask_eq_exp_minus_1)
  show ?thesis using descobrir_sem_rota [of "take 4 (tl rotas_teste)" "0x0c000001"] ok n by simp
qed

text \<open>
  C24. A table entry written as a bare address, placed anywhere after
  well-formed entries, is accepted by \<open>ip_network\<close> as a /32 network, but
  \<open>rede.split('/')[1]\<close> raises \<open>IndexError\<close>: every lookup, for any
  destination, fails when the scan reaches it.
\<close>
theorem descobrir_sem_barra:
  assumes "list_all rota_ok pre"
  shows "rede_ip (Rede a None) = Inr (a, 32)
       \<and> descobrir_proximo_salto (pre @ (Rede a None, s) # rs) ip = Inl IndexError"
proof -
  obtain prox mm where "descobrir_loop ip (pre @ (Rede a None, s) # rs) None 0 =
                          descobrir_loop ip ((Rede a None, s) # rs) prox mm"
    using descobrir_loop_append [OF assms] by blast
  then show ?thesis
    by (simp add: descobrir_proximo_salto_def rede_ip_def prefixo_def mascara_def)
qed

theorem descobrir_sem_barra_witness:
  "list_all rota_ok (take 3 rotas_teste)
   \<and> descobrir_proximo_salto (take 3 rotas_teste @ [(Rede 0x0a000005 None, 9)]) 0x0c000001 = Inl IndexError"
proof -
  have ok: "list_all rota_ok (take 3 rotas_teste)"
    by (simp add: rotas_teste_def mascara_def mask_eq_exp_minus_1)
  show ?thesis using descobrir_sem_barra [OF ok, of "0x0a000005" 9 "[]" "0x0c000001"] ok by simp
qed

end
