(* ===== verification/IPLayer.thy ===== *)
theory IPLayer
  imports Codec Routing
begin

unbundle bit_operations_syntax

text \<open>
  The IP layer, class \<open>CamadaRede\<close> of \<open>src/slip.py\<close>. The object's fields
  are the record \<open>camada_rede\<close> (\<open>receptor\<close> records whether a receiver
  is registered, \<open>rotas\<close> is \<open>None\<close> until a table is set, as the attribute
  does not exist before). The inbound handler \<open>__tratar_entrada_bruta\<close> and
  \<open>enviar\<close> return the exception they raise, if any, and the effects they
  perform in order: frames handed to the link (\<open>self.meio.enviar\<close>, with the
  next hop, \<open>None\<close> when no route matched) and deliveries to the receiver.
  The three places that build an IPv4 header (forwarding, ICMP, sending)
  share one pattern, \<open>montar_ip\<close>: pack the header with a zero checksum,
  append the addresses, checksum, pack again with the checksum.
\<close>

section \<open>State and effects\<close>

record camada_rede =
  receptor :: bool
  endereco_local :: "addr option"
  rotas :: "rota list option"
  ignore_checksum :: bool

datatype efeito_ip =
    Quadro bytes "addr option"
  | Recebido addr addr bytes

type_synonym resultado_ip = "pyexc option \<times> efeito_ip list"

section \<open>Operations\<close>

text \<open>\<open>CamadaRede.__init__(meio)\<close>; \<open>ign\<close> is \<open>meio.ignore_checksum\<close>.\<close>
definition camada_rede_init :: "bool \<Rightarrow> camada_rede" where
  "camada_rede_init ign =
     \<lparr>receptor = False, endereco_local = None, rotas = None, ignore_checksum = ign\<rparr>"

definition definir_endereco_host :: "addr \<Rightarrow> camada_rede \<Rightarrow> camada_rede" where
  "definir_endereco_host ip st = st\<lparr>endereco_local := Some ip\<rparr>"

definition definir_tabela_encaminhamento :: "rota list \<Rightarrow> camada_rede \<Rightarrow> camada_rede" where
  "definir_tabela_encaminhamento t st = st\<lparr>rotas := Some t\<rparr>"

definition registrar_recebedor_ip :: "camada_rede \<Rightarrow> camada_rede" where
  "registrar_recebedor_ip st = st\<lparr>receptor := True\<rparr>"

text \<open>\<open>self._descobrir_proximo_salto(destino)\<close>: \<open>self.rotas\<close> must exist.\<close>
definition proximo_salto :: "camada_rede \<Rightarrow> addr \<Rightarrow> pyexc + addr option" where
  "proximo_salto st destino =
     (case rotas st of None \<Rightarrow> Inl AttributeError | Some t \<Rightarrow> descobrir_proximo_salto t destino)"

text \<open>
  \<open>str2addr\<close> of an address that may be \<open>None\<close> (\<open>self.endereco_local\<close>
  before \<open>definir_endereco_host\<close>): \<open>None.split('.')\<close> raises
  \<open>AttributeError\<close>.
\<close>
definition str2addr_opt :: "addr option \<Rightarrow> pyexc + bytes" where
  "str2addr_opt a = (case a of None \<Rightarrow> Inl AttributeError | Some x \<Rightarrow> Inr (str2addr x))"

text \<open>
  The header pattern of lines 26--33, 40--47 and 85--93:
  \<open>struct.pack('!BBHHHBBH', 0x45, 0, tot, ident, ff, ttl, proto, 0)\<close> plus the
  two addresses, its checksum, and the same header packed with that checksum.
\<close>
definition montar_ip ::
  "int \<Rightarrow> int \<Rightarrow> int \<Rightarrow> int \<Rightarrow> int \<Rightarrow> addr option \<Rightarrow> addr option \<Rightarrow> pyexc + bytes" where
  "montar_ip tot ident ff tv pr src dst =
     (case pack [(1, 0x45), (1, 0), (2, tot), (2, ident), (2, ff), (1, tv), (1, pr), (2, 0)] of
        Inl e \<Rightarrow> Inl e
      | Inr h0 \<Rightarrow>
          (case str2addr_opt src of
             Inl e \<Rightarrow> Inl e
           | Inr s \<Rightarrow>
               (case str2addr_opt dst of
                  Inl e \<Rightarrow> Inl e
                | Inr d \<Rightarrow>
                    (let c = calc_checksum (h0 @ s @ d) in
                     case pack [(1, 0x45), (1, 0), (2, tot), (2, ident), (2, ff), (1, tv), (1, pr), (2, c)] of
                       Inl e \<Rightarrow> Inl e
                     | Inr h \<Rightarrow> Inr (h @ s @ d)))))"

text \<open>The ICMP Time Exceeded message of lines 36--38 for datagram \<open>pacote\<close>.\<close>
definition mensagem_icmp :: "bytes \<Rightarrow> bytes" where
  "mensagem_icmp pacote =
     (let dados_icmp = be 1 11 @ be 1 0 @ be 2 0 @ be 4 0 @ take 28 pacote;
          chks_icmp = calc_checksum dados_icmp
      in be 1 11 @ be 1 0 @ be 2 chks_icmp @ be 4 0 @ take 28 pacote)"

text \<open>\<open>__tratar_entrada_bruta(pacote)\<close>, lines 15--51.\<close>
definition tratar_entrada_bruta :: "camada_rede \<Rightarrow> bytes \<Rightarrow> resultado_ip" where
  "tratar_entrada_bruta st pacote =
     (case read_ipv4_header pacote of
        Inl e \<Rightarrow> (Some e, [])
      | Inr h \<Rightarrow>
          (if Some (dst_addr h) = endereco_local st then
             (if proto h = 6 \<and> receptor st
              then (None, [Recebido (src_addr h) (dst_addr h) (payload h)]) else (None, []))
           else
             (case proximo_salto st (dst_addr h) of
                Inl e \<Rightarrow> (Some e, [])
              | Inr salto \<Rightarrow>
                  (let tempo_vida = ttl h - 1;
                       carga = payload h
                   in if tempo_vida \<noteq> 0 then
                        (case montar_ip (20 + int (length carga)) (identification h)
                                (ip_flags h + frag_offset h) tempo_vida (proto h)
                                (Some (src_addr h)) (Some (dst_addr h)) of
                           Inl e \<Rightarrow> (Some e, [])
                         | Inr cab \<Rightarrow> (None, [Quadro (cab @ carga) salto]))
                      else
                        (let msg = mensagem_icmp pacote in
                         case montar_ip (20 + int (length msg)) (identification h)
                                (ip_flags h + frag_offset h) 64 1
                                (endereco_local st) (Some (src_addr h)) of
                           Inl e \<Rightarrow> (Some e, [])
                         | Inr cab \<Rightarrow>
                             (case endereco_local st of
                                None \<Rightarrow> (Some ValueError, [])
                              | Some l \<Rightarrow>
                                  (case proximo_salto st l of
                                     Inl e \<Rightarrow> (Some e, [])
                                   | Inr salto2 \<Rightarrow> (None, [Quadro (cab @ msg) salto2]))))))))"

text \<open>\<open>enviar(segmento, destino)\<close>, lines 74--95.\<close>
definition enviar_ip :: "camada_rede \<Rightarrow> bytes \<Rightarrow> addr \<Rightarrow> resultado_ip" where
  "enviar_ip st segmento destino =
     (case proximo_salto st destino of
        Inl e \<Rightarrow> (Some e, [])
      | Inr salto \<Rightarrow>
          (case montar_ip (20 + int (length segmento)) 0 0 64 6 (endereco_local st) (Some destino) of
             Inl e \<Rightarrow> (Some e, [])
           | Inr cab \<Rightarrow> (None, [Quadro (cab @ segmento) salto])))"

text \<open>The header \<open>montar_ip\<close> builds, field by field.\<close>
definition cabecalho :: "int \<Rightarrow> int \<Rightarrow> int \<Rightarrow> int \<Rightarrow> int \<Rightarrow> int \<Rightarrow> addr \<Rightarrow> addr \<Rightarrow> bytes" where
  "cabecalho tot ident ff tv pr c s d =
     be 1 0x45 @ be 1 0 @ be 2 tot @ be 2 ident @ be 2 ff @ be 1 tv @ be 1 pr @ be 2 c @ str2addr s @ str2addr d"

section \<open>Concrete configuration\<close>

definition carga_teste :: bytes where
  "carga_teste = replicate 8 0x61"

text \<open>A TCP datagram from 12.0.0.1 to 10.1.2.3 with TTL \<open>tv\<close> and the DF flag.\<close>
definition pacote_teste :: "int \<Rightarrow> bytes" where
  "pacote_teste tv = cabecalho (20 + int (length carga_teste)) 7 0x4000 tv 6 0 0x0c000001 0x0a010203 @ carga_teste"

definition hdr_teste :: "int \<Rightarrow> ipv4_hdr" where
  "hdr_teste tv = \<lparr>dscp = 0, ecn = 0, identification = 7, ip_flags = drop_bit 13 0x4000,
                    frag_offset = 0x4000 AND 0x1fff, ttl = tv, proto = 6, src_addr = 0x0c000001,
                    dst_addr = 0x0a010203, payload = carga_teste\<rparr>"

definition st_teste :: camada_rede where
  "st_teste = \<lparr>receptor = True, endereco_local = Some 0x0a000001, rotas = Some rotas_teste,
                ignore_checksum = False\<rparr>"

section \<open>Lemmas\<close>

lemma pack_concat:
  "list_all (\<lambda>(n, v). 0 \<le> v \<and> v < 2 ^ (8 * n)) fs \<Longrightarrow> pack fs = Inr (concat (map (\<lambda>(n, v). be n v) fs))"
  by (induction fs rule: pack.induct) auto

lemma length_str2addr [simp]: "length (str2addr a) = 4"
  by (simp add: str2addr_def)

lemma addr2str_str2addr [simp]: "addr2str (str2addr a) = a"
proof -
  have "uint a < 2 ^ (8 * 4)" using uint_lt2p [of a] by simp
  then show ?thesis by (simp add: addr2str_def str2addr_def)
qed

lemma montar_ip_Inr:
  assumes "0 \<le> tot" "tot < 2 ^ 16" "0 \<le> ident" "ident < 2 ^ 16" "0 \<le> ff" "ff < 2 ^ 16"
    "0 \<le> tv" "tv < 256" "0 \<le> pr" "pr < 256"
  shows "\<exists>c. 0 \<le> c \<and> c < 2 ^ 16
             \<and> montar_ip tot ident ff tv pr (Some s) (Some d) = Inr (cabecalho tot ident ff tv pr c s d)
             \<and> calc_checksum (cabecalho tot ident ff tv pr c s d) = 0"
proof -
  let ?pre = "be 1 0x45 @ be 1 0 @ be 2 tot @ be 2 ident @ be 2 ff @ be 1 tv @ be 1 pr"
  let ?post = "str2addr s @ str2addr d"
  define c where "c = calc_checksum (?pre @ be 2 0 @ ?post)"
  have cb: "0 \<le> c" "c < 2 ^ 16" using calc_checksum_bound [of "?pre @ be 2 0 @ ?post"] by (simp_all add: c_def)
  have m: "montar_ip tot ident ff tv pr (Some s) (Some d) = Inr (?pre @ be 2 c @ ?post)"
    using assms cb by (simp add: montar_ip_def pack_concat str2addr_opt_def c_def Let_def)
  have "calc_checksum (?pre @ be 2 c @ ?post) = 0"
    unfolding c_def by (rule calc_checksum_insert) simp
  then show ?thesis using m cb by (auto simp: cabecalho_def)
qed


lemma unbe_single [simp]: "unbe [b] = uint b"
  by (simp add: unbe_def)

lemma length_cabecalho [simp]: "length (cabecalho tot ident ff tv pr c s d) = 20"
  by (simp add: cabecalho_def)

lemma read_cabecalho:
  assumes "20 + int (length carga) < 2 ^ 16" "0 \<le> ident" "ident < 2 ^ 16" "0 \<le> ff" "ff < 2 ^ 16"
    "0 \<le> tv" "tv < 256" "0 \<le> pr" "pr < 256" "0 \<le> c" "c < 2 ^ 16"
  shows "read_ipv4_header (cabecalho (20 + int (length carga)) ident ff tv pr c s d @ carga) =
           Inr \<lparr>dscp = 0, ecn = 0, identification = ident, ip_flags = drop_bit 13 ff,
                frag_offset = ff AND 0x1fff, ttl = tv, proto = pr, src_addr = s, dst_addr = d,
                payload = carga\<rparr>"
proof -
  let ?cab = "cabecalho (20 + int (length carga)) ident ff tv pr c s d"
  have t: "take 20 (?cab @ carga) = ?cab" by simp
  have u: "unpack [1, 1, 2, 2, 2, 1, 1, 2, 4, 4] ?cab =
             Inr [0x45, 0, 20 + int (length carga), ident, ff, tv, pr, c, unbe (str2addr s), unbe (str2addr d)]"
    using assms by (simp add: unpack_def cabecalho_def unpack_fields_append uint_byte_of_int)
  have a: "slice 12 16 (?cab @ carga) = str2addr s" "slice 16 20 (?cab @ carga) = str2addr d"
    by (simp_all add: slice_def cabecalho_def)
  have p: "slice (4 * nat (0x45 AND 0xf)) (nat (20 + int (length carga))) (?cab @ carga) = carga"
    by (simp add: slice_def)
  show ?thesis using t u a p by (simp add: read_ipv4_header_def Let_def)
qed


lemma and_1fff: "(x::int) AND 0x1fff = x mod 8192"
  using take_bit_eq_mask [of 13 x] by (simp add: mask_eq_exp_minus_1 take_bit_eq_mod)

lemma unbe_take_bound: "n \<le> length xs \<Longrightarrow> 0 \<le> unbe (take n xs) \<and> unbe (take n xs) < 2 ^ (8 * n)"
  using unbe_bound [of "take n xs"] by simp

text \<open>The ranges of the fields \<open>read_ipv4_header\<close> returns.\<close>
lemma read_ipv4_header_bounds:
  assumes "read_ipv4_header dg = Inr h"
  shows "0 \<le> identification h \<and> identification h < 2 ^ 16 \<and> 0 \<le> ttl h \<and> ttl h < 256
       \<and> 0 \<le> proto h \<and> proto h < 256 \<and> 0 \<le> ip_flags h \<and> ip_flags h < 8
       \<and> 0 \<le> frag_offset h \<and> frag_offset h < 8192"
proof -
  have l: "length (take 20 dg) = 20"
    using assms by (auto simp: read_ipv4_header_def unpack_def split: if_splits sum.splits)
  have h: "identification h = unbe (take 2 (drop 4 (take 20 dg)))"
    "ip_flags h = drop_bit 13 (unbe (take 2 (drop 6 (take 20 dg))))"
    "frag_offset h = unbe (take 2 (drop 6 (take 20 dg))) AND 0x1fff"
    "ttl h = unbe (take 1 (drop 8 (take 20 dg)))" "proto h = unbe (take 1 (drop 9 (take 20 dg)))"
    using assms by (auto simp: read_ipv4_header_def unpack_def Let_def split: if_splits)
  let ?ff = "unbe (take 2 (drop 6 (take 20 dg)))"
  have ff: "0 \<le> ?ff" "?ff < 2 ^ 16" using unbe_take_bound [of 2 "drop 6 (take 20 dg)"] l by simp_all
  have "drop_bit 13 ?ff < 8" using ff by (simp add: drop_bit_eq_div)
  moreover have "0 \<le> drop_bit 13 ?ff" using ff by simp
  moreover have "0 \<le> ?ff AND 0x1fff \<and> ?ff AND 0x1fff < 8192" by (simp add: and_1fff)
  moreover have "0 \<le> unbe (take 2 (drop 4 (take 20 dg))) \<and> unbe (take 2 (drop 4 (take 20 dg))) < 2 ^ 16"
    using unbe_take_bound [of 2 "drop 4 (take 20 dg)"] l by simp
  moreover have "0 \<le> unbe (take 1 (drop 8 (take 20 dg))) \<and> unbe (take 1 (drop 8 (take 20 dg))) < 256"
    using unbe_take_bound [of 1 "drop 8 (take 20 dg)"] l by simp
  moreover have "0 \<le> unbe (take 1 (drop 9 (take 20 dg))) \<and> unbe (take 1 (drop 9 (take 20 dg))) < 256"
    using unbe_take_bound [of 1 "drop 9 (take 20 dg)"] l by simp
  ultimately show ?thesis using h by simp
qed


lemma flags_frag_bound:
  "read_ipv4_header dg = Inr h \<Longrightarrow> 0 \<le> ip_flags h + frag_offset h \<and> ip_flags h + frag_offset h < 2 ^ 16"
  using read_ipv4_header_bounds [of dg h] by simp

text \<open>A datagram for another host with TTL above 1 is forwarded once, to the
  next hop of its destination, under a rebuilt header.\<close>
lemma tratar_entrada_encaminha:
  assumes r: "read_ipv4_header pacote = Inr h" and nl: "Some (dst_addr h) \<noteq> endereco_local st"
    and s: "proximo_salto st (dst_addr h) = Inr salto" and t: "1 < ttl h"
    and len: "20 + int (length (payload h)) < 2 ^ 16"
  defines "cab c \<equiv> cabecalho (20 + int (length (payload h))) (identification h)
                       (ip_flags h + frag_offset h) (ttl h - 1) (proto h) c (src_addr h) (dst_addr h)"
  shows "\<exists>c. 0 \<le> c \<and> c < 2 ^ 16 \<and> calc_checksum (cab c) = 0
           \<and> tratar_entrada_bruta st pacote = (None, [Quadro (cab c @ payload h) salto])"
proof -
  note b = read_ipv4_header_bounds [OF r] flags_frag_bound [OF r]
  obtain c where c: "0 \<le> c" "c < 2 ^ 16" "calc_checksum (cab c) = 0"
    "montar_ip (20 + int (length (payload h))) (identification h) (ip_flags h + frag_offset h)
        (ttl h - 1) (proto h) (Some (src_addr h)) (Some (dst_addr h)) = Inr (cab c)"
    using montar_ip_Inr [of "20 + int (length (payload h))" "identification h" "ip_flags h + frag_offset h"
        "ttl h - 1" "proto h" "src_addr h" "dst_addr h"] b t len unfolding cab_def by auto
  have "ttl h - 1 \<noteq> 0" using t by simp
  then show ?thesis using c r nl s by (auto simp: tratar_entrada_bruta_def Let_def)
qed


lemma read_pacote_teste: "0 \<le> tv \<Longrightarrow> tv < 256 \<Longrightarrow> read_ipv4_header (pacote_teste tv) = Inr (hdr_teste tv)"
  unfolding pacote_teste_def hdr_teste_def by (rule read_cabecalho) (simp_all add: carga_teste_def)

lemma salto_teste: "proximo_salto st_teste 0x0a010203 = Inr (Some 4)"
  by (simp add: st_teste_def proximo_salto_def rotas_teste_def descobrir_proximo_salto_def
      rede_ip_def prefixo_def contem_def mascara_def mask_eq_exp_minus_1)

lemma mensagem_icmp_checksum: "calc_checksum (mensagem_icmp pacote) = 0"
  using calc_checksum_insert [of "be 1 11 @ be 1 0" "be 4 0 @ take 28 pacote"]
  by (simp add: mensagem_icmp_def Let_def)

lemma length_mensagem_icmp: "length (mensagem_icmp pacote) = 8 + min (length pacote) 28"
  by (simp add: mensagem_icmp_def Let_def)

lemma drop_mensagem_icmp: "drop 8 (mensagem_icmp pacote) = take 28 pacote"
  by (simp add: mensagem_icmp_def Let_def)

lemma tipo_mensagem_icmp:
  "take 2 (mensagem_icmp pacote) = [11, 0] \<and> take 4 (drop 4 (mensagem_icmp pacote)) = [0, 0, 0, 0]"
  by (simp add: mensagem_icmp_def Let_def numeral_eq_Suc)

section \<open>Properties\<close>

text \<open>
  C7. A datagram for another host whose TTL is above 1 is forwarded once,
  to the next hop of its destination, with the TTL decremented, the same
  addresses, protocol, identification and payload, and a header checksum
  that verifies.
\<close>
theorem encaminhar_ttl:
  assumes r: "read_ipv4_header pacote = Inr h" and nl: "Some (dst_addr h) \<noteq> endereco_local st"
    and s: "proximo_salto st (dst_addr h) = Inr salto" and t: "1 < ttl h"
    and len: "20 + int (length (payload h)) < 2 ^ 16"
  shows "\<exists>p h'. tratar_entrada_bruta st pacote = (None, [Quadro p salto])
           \<and> read_ipv4_header p = Inr h' \<and> ttl h' = ttl h - 1
           \<and> src_addr h' = src_addr h \<and> dst_addr h' = dst_addr h \<and> proto h' = proto h
           \<and> identification h' = identification h \<and> payload h' = payload h
           \<and> calc_checksum (take 20 p) = 0"
proof -
  note b = read_ipv4_header_bounds [OF r] flags_frag_bound [OF r]
  obtain c where c: "0 \<le> c" "c < 2 ^ 16"
    "calc_checksum (cabecalho (20 + int (length (payload h))) (identification h)
       (ip_flags h + frag_offset h) (ttl h - 1) (proto h) c (src_addr h) (dst_addr h)) = 0"
    "tratar_entrada_bruta st pacote = (None, [Quadro (cabecalho (20 + int (length (payload h)))
       (identification h) (ip_flags h + frag_offset h) (ttl h - 1) (proto h) c (src_addr h)
       (dst_addr h) @ payload h) salto])"
    using tratar_entrada_encaminha [OF r nl s t len] by blast
  show ?thesis
    using c read_cabecalho [OF len, of "identification h" "ip_flags h + frag_offset h" "ttl h - 1"
        "proto h" c "src_addr h" "dst_addr h"] b t by auto
qed

theorem encaminhar_ttl_witness:
  "read_ipv4_header (pacote_teste 5) = Inr (hdr_teste 5)
   \<and> Some (dst_addr (hdr_teste 5)) \<noteq> endereco_local st_teste
   \<and> proximo_salto st_teste (dst_addr (hdr_teste 5)) = Inr (Some 4) \<and> 1 < ttl (hdr_teste 5)
   \<and> 20 + int (length (payload (hdr_teste 5))) < 2 ^ 16
   \<and> (\<exists>p h'. tratar_entrada_bruta st_teste (pacote_teste 5) = (None, [Quadro p (Some 4)])
          \<and> read_ipv4_header p = Inr h' \<and> ttl h' = 4 \<and> payload h' = carga_teste)"
proof -
  have r: "read_ipv4_header (pacote_teste 5) = Inr (hdr_teste 5)" by (rule read_pacote_teste) simp_all
  have nl: "Some (dst_addr (hdr_teste 5)) \<noteq> endereco_local st_teste"
    by (simp add: hdr_teste_def st_teste_def)
  have s: "proximo_salto st_teste (dst_addr (hdr_teste 5)) = Inr (Some 4)"
    using salto_teste by (simp add: hdr_teste_def)
  have t: "1 < ttl (hdr_teste 5)" by (simp add: hdr_teste_def)
  have len: "20 + int (length (payload (hdr_teste 5))) < 2 ^ 16"
    by (simp add: hdr_teste_def carga_teste_def)
  show ?thesis
    using encaminhar_ttl [OF r nl s t len] r nl s t len by (auto simp: hdr_teste_def)
qed


text \<open>
  C22. The forwarded header's flags/fragment-offset field is
  \<open>flags + deslocamento\<close>, where \<open>flags\<close> was already shifted down by 13
  bits: the flags are lost and added to the fragment offset (a DF datagram
  leaves with no flags and offset 2).
\<close>
theorem encaminhar_flags:
  assumes r: "read_ipv4_header pacote = Inr h" and nl: "Some (dst_addr h) \<noteq> endereco_local st"
    and s: "proximo_salto st (dst_addr h) = Inr salto" and t: "1 < ttl h"
    and len: "20 + int (length (payload h)) < 2 ^ 16" and f: "frag_offset h + ip_flags h < 8192"
  shows "\<exists>p h'. tratar_entrada_bruta st pacote = (None, [Quadro p salto])
           \<and> read_ipv4_header p = Inr h' \<and> ip_flags h' = 0
           \<and> frag_offset h' = frag_offset h + ip_flags h"
proof -
  note b = read_ipv4_header_bounds [OF r] flags_frag_bound [OF r]
  obtain c where c: "0 \<le> c" "c < 2 ^ 16"
    "tratar_entrada_bruta st pacote = (None, [Quadro (cabecalho (20 + int (length (payload h)))
       (identification h) (ip_flags h + frag_offset h) (ttl h - 1) (proto h) c (src_addr h)
       (dst_addr h) @ payload h) salto])"
    using tratar_entrada_encaminha [OF r nl s t len] by blast
  have "drop_bit 13 (ip_flags h + frag_offset h) = 0" "(ip_flags h + frag_offset h) AND 0x1fff = frag_offset h + ip_flags h"
    using f b by (simp_all add: drop_bit_eq_div and_1fff)
  then show ?thesis
    using c read_cabecalho [OF len, of "identification h" "ip_flags h + frag_offset h" "ttl h - 1"
        "proto h" c "src_addr h" "dst_addr h"] b t by auto
qed

theorem encaminhar_flags_witness:
  "read_ipv4_header (pacote_teste 5) = Inr (hdr_teste 5) \<and> ip_flags (hdr_teste 5) = 2
   \<and> Some (dst_addr (hdr_teste 5)) \<noteq> endereco_local st_teste
   \<and> proximo_salto st_teste (dst_addr (hdr_teste 5)) = Inr (Some 4) \<and> 1 < ttl (hdr_teste 5)
   \<and> 20 + int (length (payload (hdr_teste 5))) < 2 ^ 16
   \<and> frag_offset (hdr_teste 5) + ip_flags (hdr_teste 5) < 8192
   \<and> (\<exists>p h'. tratar_entrada_bruta st_teste (pacote_teste 5) = (None, [Quadro p (Some 4)])
          \<and> read_ipv4_header p = Inr h' \<and> ip_flags h' = 0 \<and> frag_offset h' = 2)"
proof -
  have r: "read_ipv4_header (pacote_teste 5) = Inr (hdr_teste 5)" by (rule read_pacote_teste) simp_all
  have nl: "Some (dst_addr (hdr_teste 5)) \<noteq> endereco_local st_teste"
    by (simp add: hdr_teste_def st_teste_def)
  have s: "proximo_salto st_teste (dst_addr (hdr_teste 5)) = Inr (Some 4)"
    using salto_teste by (simp add: hdr_teste_def)
  have t: "1 < ttl (hdr_teste 5)" by (simp add: hdr_teste_def)
  have len: "20 + int (length (payload (hdr_teste 5))) < 2 ^ 16"
    by (simp add: hdr_teste_def carga_teste_def)
  have fl: "ip_flags (hdr_teste 5) = 2" "frag_offset (hdr_teste 5) = 0" by (simp_all add: hdr_teste_def)
  then have f: "frag_offset (hdr_teste 5) + ip_flags (hdr_teste 5) < 8192" by simp
  show ?thesis
    using encaminhar_flags [OF r nl s t len f] r nl s t len f fl by auto
qed

text \<open>
  C23. A datagram for another host that arrives with TTL 0 is not
  dropped: the decrement gives -1, which is truthy, and packing it into the
  unsigned TTL byte raises \<open>struct.error\<close>.
\<close>
theorem encaminhar_ttl_zero:
  assumes r: "read_ipv4_header pacote = Inr h" and nl: "Some (dst_addr h) \<noteq> endereco_local st"
    and s: "proximo_salto st (dst_addr h) = Inr salto" and t: "ttl h = 0"
  shows "tratar_entrada_bruta st pacote = (Some StructError, [])"
proof -
  let ?fs = "[(1, 0x45), (1, 0), (2, 20 + int (length (payload h))), (2, identification h),
              (2, ip_flags h + frag_offset h), (1, -1), (1, proto h), (2, 0)] :: (nat \<times> int) list"
  have "\<not> (\<exists>bs. pack ?fs = Inr bs)" unfolding pack_Inr_iff by auto
  then obtain e where "pack ?fs = Inl e" by (cases "pack ?fs") auto
  then have "pack ?fs = Inl StructError" using pack_Inl by blast
  then show ?thesis using r nl s t by (simp add: tratar_entrada_bruta_def montar_ip_def Let_def)
qed

theorem encaminhar_ttl_zero_witness:
  "read_ipv4_header (pacote_teste 0) = Inr (hdr_teste 0)
   \<and> Some (dst_addr (hdr_teste 0)) \<noteq> endereco_local st_teste
   \<and> proximo_salto st_teste (dst_addr (hdr_teste 0)) = Inr (Some 4) \<and> ttl (hdr_teste 0) = 0
   \<and> tratar_entrada_bruta st_teste (pacote_teste 0) = (Some StructError, [])"
proof -
  have r: "read_ipv4_header (pacote_teste 0) = Inr (hdr_teste 0)" by (rule read_pacote_teste) simp_all
  have nl: "Some (dst_addr (hdr_teste 0)) \<noteq> endereco_local st_teste"
    by (simp add: hdr_teste_def st_teste_def)
  have s: "proximo_salto st_teste (dst_addr (hdr_teste 0)) = Inr (Some 4)"
    using salto_teste by (simp add: hdr_teste_def)
  have t: "ttl (hdr_teste 0) = 0" by (simp add: hdr_teste_def)
  show ?thesis using encaminhar_ttl_zero [OF r nl s t] r nl s t by simp
qed


text \<open>
  C8. A datagram for another host that arrives with TTL 1 is not
  forwarded; the layer sends one ICMP Time Exceeded datagram (protocol 1,
  TTL 64) from the local address to the original source: ICMP type 11,
  code 0, four unused zero bytes, and a body that carries
  the first 28 bytes of the original datagram under a valid ICMP checksum, and
  whose header checksum verifies. It goes to the next hop of the local
  address, as the code looks it up.
\<close>
theorem icmp_tempo_excedido:
  assumes r: "read_ipv4_header pacote = Inr h" and l: "endereco_local st = Some l"
    and nl: "dst_addr h \<noteq> l" and s: "proximo_salto st (dst_addr h) = Inr salto"
    and t: "ttl h = 1" and s2: "proximo_salto st l = Inr salto2"
  shows "\<exists>p h'. tratar_entrada_bruta st pacote = (None, [Quadro p salto2])
           \<and> read_ipv4_header p = Inr h' \<and> proto h' = 1 \<and> ttl h' = 64
           \<and> src_addr h' = l \<and> dst_addr h' = src_addr h
           \<and> identification h' = identification h
           \<and> take 2 (payload h') = [11, 0] \<and> take 4 (drop 4 (payload h')) = [0, 0, 0, 0]
           \<and> drop 8 (payload h') = take 28 pacote
           \<and> calc_checksum (payload h') = 0 \<and> calc_checksum (take 20 p) = 0"
proof -
  note b = read_ipv4_header_bounds [OF r] flags_frag_bound [OF r]
  let ?msg = "mensagem_icmp pacote"
  have len: "20 + int (length ?msg) < 2 ^ 16" by (simp add: length_mensagem_icmp)
  obtain c where c: "0 \<le> c" "c < 2 ^ 16"
    "montar_ip (20 + int (length ?msg)) (identification h) (ip_flags h + frag_offset h) 64 1
        (Some l) (Some (src_addr h)) =
       Inr (cabecalho (20 + int (length ?msg)) (identification h) (ip_flags h + frag_offset h)
              64 1 c l (src_addr h))"
    "calc_checksum (cabecalho (20 + int (length ?msg)) (identification h) (ip_flags h + frag_offset h)
              64 1 c l (src_addr h)) = 0"
    using montar_ip_Inr [of "20 + int (length ?msg)" "identification h" "ip_flags h + frag_offset h"
        64 1 l "src_addr h"] b len by auto
  have eq: "tratar_entrada_bruta st pacote =
      (None, [Quadro (cabecalho (20 + int (length ?msg)) (identification h)
                 (ip_flags h + frag_offset h) 64 1 c l (src_addr h) @ ?msg) salto2])"
    using r l nl s t s2 c(3) by (simp add: tratar_entrada_bruta_def Let_def)
  show ?thesis
    using eq c read_cabecalho [OF len, of "identification h" "ip_flags h + frag_offset h" 64 1 c l
        "src_addr h"] b mensagem_icmp_checksum drop_mensagem_icmp tipo_mensagem_icmp by auto
qed

theorem icmp_tempo_excedido_witness:
  "read_ipv4_header (pacote_teste 1) = Inr (hdr_teste 1) \<and> endereco_local st_teste = Some 0x0a000001
   \<and> dst_addr (hdr_teste 1) \<noteq> 0x0a000001
   \<and> proximo_salto st_teste (dst_addr (hdr_teste 1)) = Inr (Some 4) \<and> ttl (hdr_teste 1) = 1
   \<and> proximo_salto st_teste 0x0a000001 = Inr (Some 2)
   \<and> (\<exists>p h'. tratar_entrada_bruta st_teste (pacote_teste 1) = (None, [Quadro p (Some 2)])
          \<and> read_ipv4_header p = Inr h' \<and> dst_addr h' = 0x0c000001
          \<and> drop 8 (payload h') = take 28 (pacote_teste 1))"
proof -
  have r: "read_ipv4_header (pacote_teste 1) = Inr (hdr_teste 1)" by (rule read_pacote_teste) simp_all
  have l: "endereco_local st_teste = Some 0x0a000001" by (simp add: st_teste_def)
  have nl: "dst_addr (hdr_teste 1) \<noteq> 0x0a000001" by (simp add: hdr_teste_def)
  have s: "proximo_salto st_teste (dst_addr (hdr_teste 1)) = Inr (Some 4)"
    using salto_teste by (simp add: hdr_teste_def)
  have t: "ttl (hdr_teste 1) = 1" by (simp add: hdr_teste_def)
  have s2: "proximo_salto st_teste 0x0a000001 = Inr (Some 2)"
    by (simp add: st_teste_def proximo_salto_def rotas_teste_def descobrir_proximo_salto_def
        rede_ip_def prefixo_def contem_def mascara_def mask_eq_exp_minus_1)
  have "src_addr (hdr_teste 1) = 0x0c000001" by (simp add: hdr_teste_def)
  then show ?thesis using icmp_tempo_excedido [OF r l nl s t s2] r l nl s t s2 by auto
qed

text \<open>
  C17. \<open>enviar\<close> of the IP layer wraps a segment in one datagram
  (TTL 64, protocol TCP, identification and flags 0, from the local address
  to the destination, the segment as payload) whose header checksum verifies,
  and hands it to the link toward the next hop of the destination.
\<close>
theorem enviar_ip_correto:
  assumes l: "endereco_local st = Some l" and s: "proximo_salto st d = Inr salto"
    and len: "20 + int (length seg) < 2 ^ 16"
  shows "\<exists>p. enviar_ip st seg d = (None, [Quadro p salto])
           \<and> read_ipv4_header p = Inr \<lparr>dscp = 0, ecn = 0, identification = 0, ip_flags = 0,
                 frag_offset = 0, ttl = 64, proto = 6, src_addr = l, dst_addr = d, payload = seg\<rparr>
           \<and> calc_checksum (take 20 p) = 0"
proof -
  obtain c where c: "0 \<le> c" "c < 2 ^ 16"
    "montar_ip (20 + int (length seg)) 0 0 64 6 (Some l) (Some d) =
       Inr (cabecalho (20 + int (length seg)) 0 0 64 6 c l d)"
    "calc_checksum (cabecalho (20 + int (length seg)) 0 0 64 6 c l d) = 0"
    using montar_ip_Inr [of "20 + int (length seg)" 0 0 64 6 l d] len by auto
  show ?thesis
    using c l s read_cabecalho [OF len, of 0 0 64 6 c l d] by (auto simp: enviar_ip_def)
qed

theorem enviar_ip_correto_witness:
  "endereco_local st_teste = Some 0x0a000001 \<and> proximo_salto st_teste 0x0a010203 = Inr (Some 4)
   \<and> 20 + int (length carga_teste) < 2 ^ 16
   \<and> (\<exists>p. enviar_ip st_teste carga_teste 0x0a010203 = (None, [Quadro p (Some 4)])
          \<and> calc_checksum (take 20 p) = 0)"
proof -
  have l: "endereco_local st_teste = Some 0x0a000001" by (simp add: st_teste_def)
  have len: "20 + int (length carga_teste) < 2 ^ 16" by (simp add: carga_teste_def)
  show ?thesis using enviar_ip_correto [OF l salto_teste len] l salto_teste len by auto
qed

end
