(* ===== verification/Spec2Isabelle.thy ===== *)
theory Spec2Isabelle
  imports Server IPLayer
begin

text \<open>
  \<^bold>\<open>A verification development of the Redes-s1 network stack.\<close>

  The repository implements, in Python over asyncio, the network and transport
  layers of a small TCP/IP stack:
  \<^item> \<open>src/slip.py\<close>, class \<open>CamadaRede\<close>: the IP layer. It receives raw
    datagrams from the link (\<open>__tratar_entrada_bruta\<close>), delivers TCP payloads
    addressed to this host to the registered receiver, forwards other datagrams
    with a decremented TTL (or answers an ICMP Time Exceeded when the TTL runs
    out), chooses the next hop by longest-prefix match over the forwarding
    table (\<open>_descobrir_proximo_salto\<close>), and wraps outgoing segments in an
    IPv4 header (\<open>enviar\<close>).
  \<^item> \<open>src/tcp.py\<close>, class \<open>NucleoServidor\<close>: the TCP server, registered as
    the IP layer's receiver. It reads each segment, drops those for another
    port or with a bad checksum, creates a connection on SYN and answers
    SYN+ACK, and dispatches the other segments to their connection.
  \<^item> \<open>src/tcp.py\<close>, class \<open>NodoConexao\<close>: one connection, with in-order
    receive and acknowledgment, a send window with additive increase and
    halving on timeout, a retransmission timer, Jacobson's RTT estimator, and
    FIN handling. It sends through the IP layer's \<open>enviar\<close>.
  The helper modules \<open>tcputils\<close> and \<open>iputils\<close> (header packing, checksums,
  address conversion) are imported by the sources but are not in the
  repository; they are modelled from the wire format the spec fixes.

  \<^bold>\<open>Theories.\<close>
  \<^item> \<open>Prelude\<close>: bytes as \<open>8 word list\<close>, IPv4 addresses as \<open>32 word\<close>,
    the Python exceptions as the datatype \<open>pyexc\<close>, \<open>struct.pack\<close> and
    \<open>struct.unpack\<close> for big-endian formats (a value out of range is
    \<open>Inl StructError\<close>), slices; the round trip \<open>unbe (be n v) = v\<close>.
  \<^item> \<open>Checksum\<close>: the Internet checksum \<open>calc_checksum\<close> (ones' complement
    sum of 16-bit words with end-around carry, \<open>carry_fold\<close>, a recursion
    with a termination proof). Main theorem \<open>calc_checksum_insert\<close>:
    writing the checksum of a buffer into a zeroed field at an even offset
    makes the checksum of the result 0. Every header checksum the stack
    writes is shown valid through it.
  \<^item> \<open>Codec\<close>: \<open>make_header\<close>, \<open>read_header\<close>, \<open>fix_checksum\<close>, the TCP
    pseudo-header checksum and \<open>read_ipv4_header\<close>; parse after print
    (\<open>read_make_header\<close>), validity of a fixed segment (\<open>fix_checksum_valid\<close>).
  \<^item> \<open>Connection\<close>: \<open>NodoConexao\<close>. The object is the record \<open>conexao\<close>;
    each method is a function returning the exception it raises (if any), the
    record as the method leaves it (Python keeps mutations made before an
    exception), and the effects in order (\<open>Tx\<close> to the IP layer, \<open>Entrega\<close>
    to the listener). \<open>__init__\<close> is \<open>nodo_conexao\<close>, \<open>_reenvio\<close> is
    \<open>reenvio\<close>, \<open>processar_segmento\<close> is \<open>processar_segmento\<close> with its
    acknowledgment part \<open>tratar_ack\<close> split along the code's blocks
    (\<open>drenar\<close>, \<open>atualizar_rtt\<close>, \<open>crescer_janela\<close>, \<open>admitir\<close>,
    \<open>rearmar\<close>), \<open>enviar\<close> is \<open>enviar\<close> over \<open>enviar_parte\<close>, \<open>fechar\<close> is
    \<open>fechar\<close>. Its events are the datatype \<open>evento\<close>, one step is \<open>passo\<close>,
    and \<open>alcancavel\<close> is the inductive set of reachable states; the invariant
    \<open>conn_inv\<close> holds in all of them (rule induction, one preservation lemma
    per handler). The functional lemmas cover the branches of the ACK path
    (cumulative retirement, maximal admission from the pending queue, the
    exact additive-increase condition),
    the RTT estimator, retransmission, segmentation, FIN and the error paths.
  \<^item> \<open>Routing\<close>: \<open>_descobrir_proximo_salto\<close> as the loop \<open>descobrir_loop\<close>
    over table entries \<open>rede\<close> (an address with an optional \<open>/p\<close>, so that
    the code's two parses of the CIDR string and their errors are visible).
    A declarative specification \<open>melhor_rota\<close> (longest matching prefix,
    last among ties) and the refinement: on a well-formed table the loop
    returns exactly the hop the specification names, by a loop invariant over
    \<open>foldl\<close>.
  \<^item> \<open>IPLayer\<close>: \<open>CamadaRede\<close> as the record \<open>camada_rede\<close>;
    \<open>tratar_entrada_bruta\<close> and \<open>enviar_ip\<close> return the exception and the
    frames handed to the link (\<open>Quadro\<close>, with the next hop) or deliveries
    (\<open>Recebido\<close>). The header pattern the code repeats three times is
    \<open>montar_ip\<close>; lemmas show that it produces a header that parses back to
    its fields and whose checksum verifies.
  \<^item> \<open>Server\<close>: \<open>NucleoServidor\<close> as the record \<open>servidor\<close>, its table a
    map from 4-tuples to connections; \<open>ouvir_segmento\<close> with the SYN branch
    \<open>aceitar_syn\<close> and the dispatch \<open>despachar\<close>. Events of a server
    (\<open>evento_srv\<close>: a segment arriving, an application call or an armed timer
    on one connection) give the reachable states \<open>alcancavel_srv\<close>; every
    connection of a reachable server satisfies \<open>conn_inv\<close>, which composes
    the connection's invariant with the server's creation and dispatch.

  \<^bold>\<open>Choices of the model.\<close> Time \<open>time.time()\<close> is the argument \<open>now\<close> of
  a handler (one reading per handler call); an asyncio timer handle is
  \<open>cronometro :: rat option\<close> (\<open>Some d\<close>: a callback armed with delay \<open>d\<close>
  is pending); the timer firing is the event \<open>Disparo\<close>, enabled only while a
  timer is pending. \<open>random.randint\<close> values are parameters. Python floats are
  rationals: the estimator's arithmetic is exact here, float rounding is not
  modelled. Python integers are \<open>int\<close>, so that the range errors of
  \<open>struct.pack\<close> are visible: sequence numbers are never reduced modulo
  2 to the 32 by the code. Callbacks registered by the application are
  booleans (registered or not) and their calls are effects. All loops of the
  code run over finite collections (\<open>deque\<close>s, \<open>range\<close>, the forwarding
  table), so every function of the model is total by structural recursion,
  except \<open>carry_fold\<close>, whose termination is proved by a measure; no fuel is
  needed. The witnesses evaluate concrete states, runs and packets by
  \<open>simp\<close>.

  \<^bold>\<open>Findings.\<close> The lemmas record, among others: the ACK drain loop also
  retires the first unacknowledged segment; a pure ACK with nothing in flight
  (the handshake's final ACK) raises \<open>UnboundLocalError\<close>; sequence numbers
  overflow into \<open>struct.error\<close>; a FIN is answered with the peer's flags;
  forwarding loses the IPv4 flags into the fragment offset; a TTL of 0 makes
  forwarding raise; a bare-address table entry anywhere after well-formed
  ones makes every lookup raise; a lookup with no matching entry returns
  \<open>None\<close> and the datagram is handed to the link with no next hop.

  \<^bold>\<open>Not modelled.\<close> The link layer (\<open>meio\<close>, SLIP framing, not in the
  repository), asyncio's event loop beyond the pending-timer abstraction,
  printing, and what the application callbacks do. The composition of the
  IP layer's delivery with the server's handler and of the connections'
  \<open>Tx\<close> effects with the IP layer's \<open>enviar\<close> is left to the effect
  lists: the theories agree on the data passed (addresses and byte strings).
\<close>

end
